theory Spec2Isabelle
  imports Main "HOL-Library.AList"
begin

section \<open>The site-visit report form controller (static/main.js)\<close>

text \<open>
  The script is a browser controller: it keeps the array \<open>window.pendingItems\<close>, reads
  and writes elements of the document, and talks to one HTTP endpoint. The embedding
  makes the document and the globals one record (\<open>page\<close>), every function of the script
  a function from a page to a completion and the page it leaves behind, and every
  effect that leaves the page (a console line, a call of \<open>showNotification\<close>, a shown
  modal, a POST, a click on a download link) an entry of the page's \<open>trace\<close>.

  An element the script looks up with \<open>getElementById\<close> is a field of option type:
  \<open>None\<close> is the \<open>null\<close> that the lookup returns, and using it throws a
  \<open>TypeError\<close>, as in the browser. Elements neither appear nor disappear except where
  the script itself moves them (the placeholder of the item list).
\<close>

subsection \<open>JavaScript primitives the script relies on\<close>

text \<open>
  Strings are lists of code units; only code units below 256 occur in the model.
  White space is what \<open>parseInt\<close> and \<open>trim\<close> skip: TAB, LF, VT, FF, CR, SPACE and
  NBSP in that range.
\<close>

definition is_js_whitespace :: "char \<Rightarrow> bool" where
  "is_js_whitespace c = (of_char c \<in> set [9, 10, 11, 12, 13, 32, 160 :: nat])"

definition js_trim :: "string \<Rightarrow> string" where
  "js_trim s = rev (dropWhile is_js_whitespace (rev (dropWhile is_js_whitespace s)))"

text \<open>
  A number is a double. \<open>parseInt\<close> yields \<open>NaN\<close> or the double nearest to an integer:
  an integer of magnitude at most \<open>2^53\<close> is held exactly (\<open>Num\<close>); one of greater
  magnitude is rounded, to an integer near it or to an infinity, and of that double
  only the integer it was rounded from is kept (\<open>Inexact\<close>). Such a double is never
  zero, and its magnitude is at least \<open>2^53\<close>.
\<close>

datatype js_number = NaN | Num int | Inexact int

definition to_number :: "int \<Rightarrow> js_number" where
  "to_number n = (if \<bar>n\<bar> \<le> 2 ^ 53 then Num n else Inexact n)"

definition digit_value :: "char \<Rightarrow> nat option" where
  "digit_value c =
     (let n = (of_char c :: nat) in
      if 48 \<le> n \<and> n \<le> 57 then Some (n - 48)
      else if 97 \<le> n \<and> n \<le> 122 then Some (n - 87)
      else if 65 \<le> n \<and> n \<le> 90 then Some (n - 55)
      else None)"

fun leading_digits :: "nat \<Rightarrow> string \<Rightarrow> nat list" where
  "leading_digits R [] = []"
| "leading_digits R (c # cs) =
     (case digit_value c of
        None \<Rightarrow> []
      | Some d \<Rightarrow> if d < R then d # leading_digits R cs else [])"

definition radix_value :: "nat \<Rightarrow> nat list \<Rightarrow> nat" where
  "radix_value R ds = foldl (\<lambda>a d. a * R + d) 0 ds"

text \<open>
  \<open>parseInt(string)\<close> with no radix: leading white space is skipped, one sign is read,
  a \<open>0x\<close> or \<open>0X\<close> prefix selects radix 16 (radix 10 otherwise), and the longest run of
  digits of that radix is the value; no digit at all gives \<open>NaN\<close>.
\<close>

definition parseInt :: "string \<Rightarrow> js_number" where
  "parseInt s =
     (let S = dropWhile is_js_whitespace s;
          sign = (case S of [] \<Rightarrow> 1 | c # _ \<Rightarrow> if c = CHR ''-'' then - 1 else (1 :: int));
          S1 = (case S of [] \<Rightarrow> S
                | c # cs \<Rightarrow> if c = CHR ''+'' \<or> c = CHR ''-'' then cs else S);
          hex = (case S1 of
                   a # b # _ \<Rightarrow> a = CHR ''0'' \<and> (b = CHR ''x'' \<or> b = CHR ''X'')
                 | _ \<Rightarrow> False);
          R = (if hex then 16 else 10);
          S2 = (if hex then drop 2 S1 else S1);
          Z = leading_digits R S2
      in if Z = [] then NaN else to_number (sign * int (radix_value R Z)))"

text \<open>\<open>n || 1\<close> on a number: \<open>NaN\<close> and zero are falsy, every other double is kept.\<close>

definition or_one :: "js_number \<Rightarrow> js_number" where
  "or_one n =
     (case n of
        NaN \<Rightarrow> Num 1
      | Num i \<Rightarrow> if i = 0 then Num 1 else Num i
      | Inexact m \<Rightarrow> Inexact m)"

text \<open>The decimal string of an integer, as a template literal prints an array index.\<close>

definition digit_char :: "nat \<Rightarrow> char" where
  "digit_char d = char_of (48 + d)"

function js_string_of_nat :: "nat \<Rightarrow> string" where
  "js_string_of_nat n =
     (if n < 10 then [digit_char n]
      else js_string_of_nat (n div 10) @ [digit_char (n mod 10)])"
  by pat_completeness auto
termination
  by (relation "measure (\<lambda>n. n)") auto

declare js_string_of_nat.simps [simp del]

definition js_string_of_int :: "int \<Rightarrow> string" where
  "js_string_of_int i =
     (if i < 0 then CHR ''-'' # js_string_of_nat (nat (- i)) else js_string_of_nat (nat i))"

text \<open>
  \<open>array.splice(start, 1)\<close>: a \<open>NaN\<close> start is 0, a negative start counts from the end
  (clamped at 0), a start beyond the end is the length; at most one element is deleted.
  An array has fewer than \<open>2^32\<close> elements, so a start of magnitude beyond \<open>2^53\<close>,
  whatever it was rounded to, is clamped to 0 when negative and to the length
  otherwise.
\<close>

definition splice1 :: "js_number \<Rightarrow> 'a list \<Rightarrow> 'a list" where
  "splice1 start xs =
     (let len = int (length xs);
          actualStart =
            (case start of
               Inexact m \<Rightarrow> if m < 0 then 0 else len
             | _ \<Rightarrow>
                 (let relativeStart = (case start of Num i \<Rightarrow> i | _ \<Rightarrow> 0)
                  in if relativeStart < 0 then max (len + relativeStart) 0
                     else min relativeStart len));
          actualDeleteCount = min (max 1 0) (len - actualStart)
      in take (nat actualStart) xs @ drop (nat (actualStart + actualDeleteCount)) xs)"

text \<open>\<open>`${v}`\<close> and string concatenation print a missing property as \<open>undefined\<close>.\<close>

definition js_template :: "string option \<Rightarrow> string" where
  "js_template v = (case v of None \<Rightarrow> ''undefined'' | Some s \<Rightarrow> s)"

text \<open>\<open>a || b\<close> on strings: the empty string and a missing property are falsy.\<close>

definition or_else :: "string option \<Rightarrow> string \<Rightarrow> string" where
  "or_else v d = (case v of None \<Rightarrow> d | Some s \<Rightarrow> if s = [] then d else s)"

text \<open>
  \<open>className.replace(/border-(success|danger|warning|info)/g, '')\<close>: scanning from the
  left, every occurrence of one of the four words is dropped. \<open>border_match\<close> is the
  length of the word that starts the string, if one does.
\<close>

definition border_words :: "string list" where
  "border_words = [''border-success'', ''border-danger'', ''border-warning'', ''border-info'']"

definition border_match :: "string \<Rightarrow> nat option" where
  "border_match s =
     (case filter (\<lambda>w. take (length w) s = w) border_words of
        [] \<Rightarrow> None
      | w # _ \<Rightarrow> Some (length w))"

fun remove_borders :: "nat \<Rightarrow> string \<Rightarrow> string" where
  "remove_borders k [] = []"
| "remove_borders (Suc k) (c # cs) = remove_borders k cs"
| "remove_borders 0 (c # cs) =
     (case border_match (c # cs) of
        Some n \<Rightarrow> remove_borders (n - 1) cs
      | None \<Rightarrow> c # remove_borders 0 cs)"

text \<open>\<open>classList.remove\<close> and \<open>classList.add\<close> on the token list of an element.\<close>

definition classList_remove :: "string list \<Rightarrow> string list \<Rightarrow> string list" where
  "classList_remove tokens cl = filter (\<lambda>c. c \<notin> set tokens) cl"

definition classList_add :: "string \<Rightarrow> string list \<Rightarrow> string list" where
  "classList_add token cl = (if token \<in> set cl then cl else cl @ [token])"

subsection \<open>Data\<close>

text \<open>What a statement leaves behind: it returns, or it throws.\<close>

datatype js_error = TypeError string | ReferenceError string | NotFoundError string

fun error_message :: "js_error \<Rightarrow> string" where
  "error_message (TypeError m) = m"
| "error_message (ReferenceError m) = m"
| "error_message (NotFoundError m) = m"

datatype completion = Returned | Threw js_error

text \<open>One line of the report, as \<open>handleAddItem\<close> builds it.\<close>

record report_item =
  asset :: string
  system :: string
  description :: string
  quantity :: js_number
  brand :: string
  comments :: string
  photoFiles :: "string list"

text \<open>
  One rendered \<open>div.report-item\<close>. The markup that \<open>renderPendingItems\<close> writes is kept
  by its parts: the \<open>data-index\<close> attribute (the same on the row and on its remove
  button), the bold heading, and what the interpolations put into the text.
\<close>

record item_row =
  row_index :: string
  row_heading :: string
  row_description :: string
  row_qty :: js_number
  row_brand :: string
  row_photos :: nat
  row_comments :: "string option"

datatype list_child = EmptyMessage | ItemRow item_row

text \<open>
  A selected photo, by what a \<open>FileReader\<close> makes of it: the data URL of \<open>onload\<close>, or
  the error of \<open>onerror\<close>. A promise is settled one way or the other.
\<close>

datatype photo_file = Readable string | Unreadable string

datatype 'a settled = Fulfilled 'a | Rejected string

text \<open>The banner \<open>#submission-alert\<close>: its class list and its text.\<close>

record alert_box =
  classList :: "string list"
  textContent :: string

text \<open>A download link that \<open>triggerDownload\<close> creates, and the callback it schedules.\<close>

record anchor =
  link_id :: nat
  href :: string
  download :: string
  link_display :: string

datatype timer_task = ClickAndRemove anchor

text \<open>
  The body of a response or of an error response, as far as the script reads it:
  \<open>null\<close>, another falsy value (an empty body), or an object with the three properties
  the script looks at (a missing one is \<open>None\<close>; a non-empty text body is an object
  with none of them).
\<close>

record response_body =
  pdf_url :: "string option"
  excel_url :: "string option"
  message :: "string option"

datatype response_data = DataNull | DataFalsy | DataObject response_body

text \<open>
  What the \<open>catch\<close> of the submission receives: an axios error with its optional
  \<open>response\<close> and its \<open>message\<close>, or an exception of the success handler (no response).
\<close>

record submit_error =
  err_response :: "response_data option"
  err_message :: string

datatype json_value = JString string | JItems "report_item list"

datatype event =
    PreventDefault
  | NotificationCall string string string
  | ModalShown
  | ConsoleError string
  | ConsoleWarn string
  | DropdownsInitialized
  | AxiosPost string "(string \<times> json_value) list"
  | LinkClicked anchor

text \<open>
  The page. \<open>pendingItemsList\<close> is the container with its children in order;
  the placeholder \<open>#emptyListMessage\<close> is in the document when it is one of these
  children or when \<open>emptyListMessage_elsewhere\<close> holds, and detached otherwise.
  \<open>modal_content_className\<close> is the class name of the \<open>.modal-content\<close> element inside
  the modal. \<open>techPad\<close> and \<open>opManPad\<close> are the signature pads, by what \<open>isEmpty()\<close>
  answers; \<open>None\<close> is a global that was never assigned. \<open>visitForm\<close> is the form, by the
  entries a \<open>FormData\<close> reads from it.
\<close>

record page =
  pendingItems :: "report_item list"
  customAlertModal :: bool
  customAlertTitle :: "string option"
  customAlertBody :: "string option"
  modal_content_className :: "string option"
  bootstrap_loaded :: bool
  pendingItemsList :: "list_child list option"
  emptyListMessage_elsewhere :: bool
  emptyListMessage_display :: string
  assetSelect :: "string option"
  systemSelect :: "string option"
  descriptionSelect :: "string option"
  quantityInput :: "string option"
  brandInput :: "string option"
  commentsTextarea :: "string option"
  photoInput :: "photo_file list option"
  status_text :: "string option"
  submission_alert :: "alert_box option"
  downloadArea :: "string option"
  techSignatureData :: "string option"
  opManSignatureData :: "string option"
  visitForm :: "(string \<times> string) list option"
  techPad :: "bool option"
  opManPad :: "bool option"
  axios_loaded :: bool
  addItem_wired :: bool
  body_links :: "anchor list"
  timers :: "timer_task list"
  next_link_id :: nat
  trace :: "event list"

definition emit :: "event \<Rightarrow> page \<Rightarrow> page" where
  "emit e st = st\<lparr>trace := trace st @ [e]\<rparr>"

definition null_error :: "string \<Rightarrow> js_error" where
  "null_error what = TypeError (''Cannot read or set properties of null: '' @ what)"

subsection \<open>showNotification\<close>

text \<open>
  \<open>iconMap[type]\<close> is a property lookup on an object literal: besides the four own
  keys it finds what every object inherits from \<open>Object.prototype\<close>, and such a value
  is truthy but has neither \<open>class\<close> nor \<open>border\<close>. \<open>None\<close> is \<open>undefined\<close>.
\<close>

definition object_prototype_names :: "string list" where
  "object_prototype_names =
     [''constructor'', ''hasOwnProperty'', ''isPrototypeOf'', ''propertyIsEnumerable'',
      ''toLocaleString'', ''toString'', ''valueOf'', ''__proto__'',
      ''__defineGetter__'', ''__defineSetter__'', ''__lookupGetter__'', ''__lookupSetter__'']"

definition info_icon :: "string option \<times> string option" where
  "info_icon = (Some ''fa-circle-info text-info'', Some ''border-info'')"

definition iconMap :: "string \<Rightarrow> (string option \<times> string option) option" where
  "iconMap k =
     (if k = ''success'' then Some (Some ''fa-circle-check text-success'', Some ''border-success'')
      else if k = ''error'' then Some (Some ''fa-circle-xmark text-danger'', Some ''border-danger'')
      else if k = ''warning''
        then Some (Some ''fa-triangle-exclamation text-warning'', Some ''border-warning'')
      else if k = ''info'' then Some info_icon
      else if k \<in> set object_prototype_names then Some (None, None)
      else None)"

definition iconData :: "string \<Rightarrow> string option \<times> string option" where
  "iconData k = (case iconMap k of Some d \<Rightarrow> d | None \<Rightarrow> info_icon)"

definition showNotification :: "string \<Rightarrow> string \<Rightarrow> string \<Rightarrow> page \<Rightarrow> completion \<times> page" where
  "showNotification kind title msg st =
     (let st0 = emit (NotificationCall kind title msg) st in
      if \<not> customAlertModal st0 then (Returned, st0)
      else
        let icon_class = fst (iconData kind); icon_border = snd (iconData kind) in
        case customAlertTitle st0 of
          None \<Rightarrow> (Threw (null_error ''customAlertTitle''), st0)
        | Some _ \<Rightarrow>
        let st1 = st0\<lparr>customAlertTitle :=
                    Some (''<i class=\"fas fa-2x me-3 '' @ js_template icon_class
                          @ ''\" id=\"customAlertIcon\"></i>'' @ title)\<rparr> in
        case customAlertBody st1 of
          None \<Rightarrow> (Threw (null_error ''customAlertBody''), st1)
        | Some _ \<Rightarrow>
        let st2 = st1\<lparr>customAlertBody := Some msg\<rparr> in
        case modal_content_className st2 of
          None \<Rightarrow> (Threw (null_error ''.modal-content''), st2)
        | Some cn \<Rightarrow>
        let st3 = st2\<lparr>modal_content_className :=
                    Some (js_trim (remove_borders 0 cn) @ '' '' @ js_template icon_border)\<rparr> in
        if \<not> bootstrap_loaded st3
        then (Threw (ReferenceError ''bootstrap is not defined''), st3)
        else (Returned, emit ModalShown st3))"

subsection \<open>The item list\<close>

fun rows_from :: "nat \<Rightarrow> report_item list \<Rightarrow> list_child list" where
  "rows_from index [] = []"
| "rows_from index (item # items) =
     ItemRow \<lparr> row_index = js_string_of_nat index,
               row_heading = asset item @ '' - '' @ system item,
               row_description = description item,
               row_qty = quantity item,
               row_brand = or_else (Some (brand item)) ''N/A'',
               row_photos = length (photoFiles item),
               row_comments = (if comments item = [] then None else Some (comments item)) \<rparr>
     # rows_from (Suc index) items"

definition emptyMessage_found :: "page \<Rightarrow> bool" where
  "emptyMessage_found st =
     (emptyListMessage_elsewhere st \<or>
      (case pendingItemsList st of None \<Rightarrow> False | Some children \<Rightarrow> EmptyMessage \<in> set children))"

text \<open>
  \<open>renderPendingItems\<close>. Clearing the container detaches whatever was in it, the
  placeholder too; only the empty branch puts the placeholder back. The rows are
  created anew by every render, each with one remove button and one click listener
  on it; what the interpolated texts would add to the markup is not parsed.
\<close>

definition renderPendingItems :: "page \<Rightarrow> completion \<times> page" where
  "renderPendingItems st =
     (if pendingItemsList st = None \<or> \<not> emptyMessage_found st
      then (Returned,
            emit (ConsoleError ''DOM element 'pendingItemsList' or 'emptyListMessage' not found.'') st)
      else
        let st1 = st\<lparr>pendingItemsList := Some []\<rparr> in
        if pendingItems st1 = []
        then (Returned, st1\<lparr>pendingItemsList := Some [EmptyMessage],
                            emptyListMessage_elsewhere := False,
                            emptyListMessage_display := ''block''\<rparr>)
        else (Returned, st1\<lparr>emptyListMessage_display := ''none'',
                            pendingItemsList := Some (rows_from 0 (pendingItems st1))\<rparr>))"

text \<open>
  The click listener of a remove button; \<open>attr\<close> is the button's \<open>data-index\<close>.
  \<open>click_remove_button k\<close> is a click on the button of the \<open>k\<close>-th child of the
  container, when that child is a row.
\<close>

definition remove_item_click :: "string \<Rightarrow> page \<Rightarrow> completion \<times> page" where
  "remove_item_click attr st =
     (let indexToRemove = parseInt attr in
      renderPendingItems (st\<lparr>pendingItems := splice1 indexToRemove (pendingItems st)\<rparr>))"

definition click_remove_button :: "nat \<Rightarrow> page \<Rightarrow> (completion \<times> page) option" where
  "click_remove_button k st =
     (case pendingItemsList st of
        None \<Rightarrow> None
      | Some children \<Rightarrow>
          if k < length children
          then (case children ! k of
                  EmptyMessage \<Rightarrow> None
                | ItemRow r \<Rightarrow> Some (remove_item_click (row_index r) st))
          else None)"

subsection \<open>handleAddItem\<close>

text \<open>
  The handler has a synchronous part, which reads the inputs, validates them and
  starts the file reads, and two continuations: the \<open>then\<close> of \<open>Promise.all\<close>, which
  builds and stores the item, and the \<open>catch\<close>, which also receives whatever the
  \<open>then\<close> throws. \<open>add_closure\<close> holds the constants the continuations capture.
\<close>

record add_closure =
  c_asset :: string
  c_system :: string
  c_description :: string
  c_quantity :: string
  c_brand :: string
  c_comments :: string
  c_files :: "photo_file list"

datatype add_started = Begin_Threw js_error | Begin_Returned | Begin_Pending add_closure

definition fileToBase64 :: "photo_file \<Rightarrow> string settled" where
  "fileToBase64 f = (case f of Readable url \<Rightarrow> Fulfilled url | Unreadable e \<Rightarrow> Rejected e)"

text \<open>
  \<open>Promise.all\<close>: the values in the order of the promises, or a rejection as soon as
  one promise rejects. The reason is that of the first rejected promise in the list;
  the browser takes the first in time, and the script only prints it.
\<close>

fun promise_all :: "'a settled list \<Rightarrow> 'a list settled" where
  "promise_all [] = Fulfilled []"
| "promise_all (p # ps) =
     (case p of
        Rejected r \<Rightarrow> Rejected r
      | Fulfilled v \<Rightarrow>
          (case promise_all ps of
             Rejected r \<Rightarrow> Rejected r
           | Fulfilled vs \<Rightarrow> Fulfilled (v # vs)))"

definition handleAddItem_begin :: "page \<Rightarrow> add_started \<times> page" where
  "handleAddItem_begin st =
     (case assetSelect st of None \<Rightarrow> (Begin_Threw (null_error ''assetSelect''), st) | Some asset_v \<Rightarrow>
      case systemSelect st of None \<Rightarrow> (Begin_Threw (null_error ''systemSelect''), st) | Some system_v \<Rightarrow>
      case descriptionSelect st of
        None \<Rightarrow> (Begin_Threw (null_error ''descriptionSelect''), st) | Some description_v \<Rightarrow>
      case quantityInput st of
        None \<Rightarrow> (Begin_Threw (null_error ''quantityInput''), st) | Some quantity_v \<Rightarrow>
      case brandInput st of None \<Rightarrow> (Begin_Threw (null_error ''brandInput''), st) | Some brand_v \<Rightarrow>
      case commentsTextarea st of
        None \<Rightarrow> (Begin_Threw (null_error ''commentsTextarea''), st) | Some comments_v \<Rightarrow>
      if asset_v = [] \<or> system_v = [] \<or> description_v = []
      then (case showNotification ''error'' ''Missing Fields''
                   ''Please select an **Asset**, **System**, and **Description**.'' st of
              (Threw e, st') \<Rightarrow> (Begin_Threw e, st')
            | (Returned, st') \<Rightarrow> (Begin_Returned, st'))
      else
      case photoInput st of None \<Rightarrow> (Begin_Threw (null_error ''photoInput''), st) | Some files \<Rightarrow>
      (Begin_Pending \<lparr> c_asset = asset_v, c_system = system_v, c_description = description_v,
                       c_quantity = quantity_v, c_brand = brand_v, c_comments = comments_v,
                       c_files = files \<rparr>, st))"

definition reset_inputs :: "page \<Rightarrow> completion \<times> page" where
  "reset_inputs st =
     (case assetSelect st of None \<Rightarrow> (Threw (null_error ''assetSelect''), st) | Some _ \<Rightarrow>
      let st1 = st\<lparr>assetSelect := Some []\<rparr> in
      case systemSelect st1 of None \<Rightarrow> (Threw (null_error ''systemSelect''), st1) | Some _ \<Rightarrow>
      let st2 = st1\<lparr>systemSelect := Some []\<rparr> in
      case descriptionSelect st2 of
        None \<Rightarrow> (Threw (null_error ''descriptionSelect''), st2) | Some _ \<Rightarrow>
      let st3 = st2\<lparr>descriptionSelect := Some []\<rparr> in
      case quantityInput st3 of None \<Rightarrow> (Threw (null_error ''quantityInput''), st3) | Some _ \<Rightarrow>
      let st4 = st3\<lparr>quantityInput := Some ''1''\<rparr> in
      case brandInput st4 of None \<Rightarrow> (Threw (null_error ''brandInput''), st4) | Some _ \<Rightarrow>
      let st5 = st4\<lparr>brandInput := Some []\<rparr> in
      case commentsTextarea st5 of
        None \<Rightarrow> (Threw (null_error ''commentsTextarea''), st5) | Some _ \<Rightarrow>
      let st6 = st5\<lparr>commentsTextarea := Some []\<rparr> in
      (Returned, st6\<lparr>photoInput := (case photoInput st6 of None \<Rightarrow> None | Some _ \<Rightarrow> Some [])\<rparr>))"

definition handleAddItem_then :: "add_closure \<Rightarrow> string list \<Rightarrow> page \<Rightarrow> completion \<times> page" where
  "handleAddItem_then cl base64Array st =
     (let newItem = \<lparr> asset = c_asset cl, system = c_system cl, description = c_description cl,
                       quantity = or_one (parseInt (c_quantity cl)),
                       brand = c_brand cl, comments = c_comments cl,
                       photoFiles = base64Array \<rparr>;
          st1 = st\<lparr>pendingItems := pendingItems st @ [newItem]\<rparr>
      in case renderPendingItems st1 of
           (Threw e, st2) \<Rightarrow> (Threw e, st2)
         | (Returned, st2) \<Rightarrow>
             (case reset_inputs st2 of
                (Threw e, st3) \<Rightarrow> (Threw e, st3)
              | (Returned, st3) \<Rightarrow>
                  showNotification ''success'' ''Item Added''
                    ''Defect item successfully added to the report list.'' st3))"

definition handleAddItem_catch :: "string \<Rightarrow> page \<Rightarrow> completion \<times> page" where
  "handleAddItem_catch reason st =
     showNotification ''error'' ''Photo Error'' ''Failed to process photos.''
       (emit (ConsoleError (''Error converting files to Base64: '' @ reason)) st)"

definition handleAddItem_settle :: "add_closure \<Rightarrow> page \<Rightarrow> completion \<times> page" where
  "handleAddItem_settle cl st =
     (case promise_all (map fileToBase64 (c_files cl)) of
        Rejected reason \<Rightarrow> handleAddItem_catch reason st
      | Fulfilled base64Array \<Rightarrow>
          (case handleAddItem_then cl base64Array st of
             (Threw e, st') \<Rightarrow> handleAddItem_catch (error_message e) st'
           | (Returned, st') \<Rightarrow> (Returned, st')))"

text \<open>One click on the add button, with its file reads settled before any other event.\<close>

definition handleAddItem :: "page \<Rightarrow> completion \<times> page" where
  "handleAddItem st =
     (case handleAddItem_begin st of
        (Begin_Threw e, st') \<Rightarrow> (Threw e, st')
      | (Begin_Returned, st') \<Rightarrow> (Returned, st')
      | (Begin_Pending cl, st') \<Rightarrow> handleAddItem_settle cl st')"

subsection \<open>onSubmit\<close>

text \<open>
  \<open>dataToSend\<close> is a plain object: its properties in the order in which
  \<open>JSON.stringify\<close> visits them, array indices first in ascending order and the
  other names in the order of their creation. \<open>obj_set k v\<close> is the assignment
  \<open>dataToSend[k] = v\<close>: an existing property keeps its place, a new one is put where
  the order wants it, and the name \<open>__proto__\<close> creates no property, since the
  inherited setter ignores a value that is not an object.
\<close>

definition is_array_index :: "string \<Rightarrow> bool" where
  "is_array_index k =
     (k \<noteq> [] \<and> length (leading_digits 10 k) = length k
      \<and> (length k = 1 \<or> hd k \<noteq> CHR ''0'')
      \<and> radix_value 10 (leading_digits 10 k) < 2 ^ 32 - 1)"

definition array_index :: "string \<Rightarrow> nat" where
  "array_index k = radix_value 10 (leading_digits 10 k)"

fun insert_index :: "string \<Rightarrow> json_value \<Rightarrow> (string \<times> json_value) list
    \<Rightarrow> (string \<times> json_value) list" where
  "insert_index k v [] = [(k, v)]"
| "insert_index k v ((k', v') # rest) =
     (if is_array_index k' \<and> array_index k' < array_index k
      then (k', v') # insert_index k v rest
      else (k, v) # (k', v') # rest)"

definition obj_set :: "string \<Rightarrow> json_value \<Rightarrow> (string \<times> json_value) list
    \<Rightarrow> (string \<times> json_value) list" where
  "obj_set k v obj =
     (if k = ''__proto__'' then obj
      else if map_of obj k \<noteq> None then AList.update k v obj
      else if is_array_index k then insert_index k v obj
      else obj @ [(k, v)])"

definition form_object :: "(string \<times> string) list \<Rightarrow> (string \<times> json_value) list" where
  "form_object entries = foldl (\<lambda>obj (k, v). obj_set k (JString v) obj) [] entries"

datatype axios_outcome = Responded response_data | Failed submit_error

definition onSubmit :: "page \<Rightarrow> completion \<times> page" where
  "onSubmit st =
     (let st1 = emit PreventDefault st in
      case downloadArea st1 of None \<Rightarrow> (Threw (null_error ''downloadArea''), st1) | Some _ \<Rightarrow>
      let st2 = st1\<lparr>downloadArea := Some []\<rparr> in
      case techSignatureData st2 of
        None \<Rightarrow> (Threw (null_error ''techSignatureData''), st2) | Some techSigData \<Rightarrow>
      if techPad st2 = Some True
      then (case submission_alert st2 of
              None \<Rightarrow> (Threw (null_error ''submission-alert''), st2)
            | Some alertDiv \<Rightarrow>
                (Returned, st2\<lparr>submission_alert := Some
                   \<lparr> classList = classList_add ''alert-warning''
                                   (classList_remove [''alert-info''] (classList alertDiv)),
                     textContent =
                       ''Please provide the Technician Signature before submitting.'' \<rparr>\<rparr>))
      else
      case visitForm st2 of
        None \<Rightarrow> (Threw (TypeError ''FormData: parameter 1 is not a form''), st2) | Some entries \<Rightarrow>
      let dataToSend0 = form_object entries;
          dataToSend1 = obj_set ''tech_signature'' (JString techSigData) dataToSend0 in
      case opManSignatureData st2 of
        None \<Rightarrow> (Threw (null_error ''opManSignatureData''), st2) | Some opManSigData \<Rightarrow>
      let dataToSend2 = obj_set ''opMan_signature'' (JString opManSigData) dataToSend1;
          dataToSend = obj_set ''report_items'' (JItems (pendingItems st2)) dataToSend2 in
      case status_text st2 of None \<Rightarrow> (Threw (null_error ''status''), st2) | Some _ \<Rightarrow>
      let st3 = st2\<lparr>status_text := Some ''Submitting... Please wait.''\<rparr> in
      case submission_alert st3 of
        None \<Rightarrow> (Threw (null_error ''submission-alert''), st3) | Some alertDiv \<Rightarrow>
      let st4 = st3\<lparr>submission_alert := Some
                  \<lparr> classList = classList_add ''alert-info''
                      (classList_remove [''alert-success'', ''alert-danger'', ''alert-warning'']
                         (classList alertDiv)),
                    textContent = ''Report is being processed. This may take a moment...'' \<rparr>\<rparr> in
      if \<not> axios_loaded st4 then (Threw (ReferenceError ''axios is not defined''), st4)
      else (Returned, emit (AxiosPost ''/submit-report'' dataToSend) st4))"

text \<open>
  \<open>triggerDownload\<close>: the link is created and appended at once; the click and the
  removal are a callback handed to \<open>setTimeout(..., 0)\<close>, that is, a task at the end
  of the timer queue. \<open>run_timer\<close> is the event loop running the first queued task.
\<close>

definition triggerDownload :: "string \<Rightarrow> string \<Rightarrow> page \<Rightarrow> page" where
  "triggerDownload url filename st =
     (let link = \<lparr> link_id = next_link_id st, href = url, download = filename,
                    link_display = ''none'' \<rparr>
      in st\<lparr>next_link_id := Suc (next_link_id st),
             body_links := body_links st @ [link],
             timers := timers st @ [ClickAndRemove link]\<rparr>)"

definition run_timer :: "page \<Rightarrow> (completion \<times> page) option" where
  "run_timer st =
     (case timers st of
        [] \<Rightarrow> None
      | ClickAndRemove link # rest \<Rightarrow>
          (let st1 = emit (LinkClicked link) (st\<lparr>timers := rest\<rparr>) in
           if link \<in> set (body_links st1)
           then Some (Returned, st1\<lparr>body_links := remove1 link (body_links st1)\<rparr>)
           else Some (Threw (NotFoundError ''removeChild: not a child of this node''), st1)))"

text \<open>The properties of a body that is not \<open>null\<close>; a falsy body has none.\<close>

definition response_fields :: "response_data \<Rightarrow> response_body" where
  "response_fields data =
     (case data of
        DataObject b \<Rightarrow> b
      | _ \<Rightarrow> \<lparr> pdf_url = None, excel_url = None, message = None \<rparr>)"

definition onSubmit_then :: "response_data \<Rightarrow> page \<Rightarrow> completion \<times> page" where
  "onSubmit_then data st =
     (case status_text st of None \<Rightarrow> (Threw (null_error ''status''), st) | Some _ \<Rightarrow>
      let st1 = st\<lparr>status_text := Some ''Submission Successful!''\<rparr> in
      case submission_alert st1 of
        None \<Rightarrow> (Threw (null_error ''submission-alert''), st1) | Some alertDiv \<Rightarrow>
      let st2 = st1\<lparr>submission_alert := Some
                  \<lparr> classList = classList_add ''alert-success''
                                  (classList_remove [''alert-info''] (classList alertDiv)),
                    textContent =
                      ''Report successfully generated. Downloads are starting automatically!'' \<rparr>\<rparr> in
      case data of
        DataNull \<Rightarrow> (Threw (null_error ''response.data''), st2)
      | _ \<Rightarrow>
      let body = response_fields data;
          pdfUrl = or_else (pdf_url body) ''/download-pdf'';
          excelUrl = or_else (excel_url body) ''/download-excel'';
          st3 = triggerDownload pdfUrl ''Site_Visit_Report.pdf'' st2;
          st4 = triggerDownload excelUrl ''Site_Visit_Report.xlsx'' st3
      in showNotification ''success'' ''Reports Generated''
           ''Your PDF and Excel reports should be downloading automatically. Check your browser downloads.''
           st4)"

definition failure_detail :: "submit_error \<Rightarrow> string" where
  "failure_detail err =
     (case err_response err of
        Some (DataObject b) \<Rightarrow> js_template (message b)
      | _ \<Rightarrow> err_message err)"

definition onSubmit_catch :: "submit_error \<Rightarrow> page \<Rightarrow> completion \<times> page" where
  "onSubmit_catch err st =
     (let st0 = emit (ConsoleError ''Submission failed:'') st in
      case status_text st0 of None \<Rightarrow> (Threw (null_error ''status''), st0) | Some _ \<Rightarrow>
      let st1 = st0\<lparr>status_text := Some ''Submission Failed!''\<rparr> in
      case submission_alert st1 of
        None \<Rightarrow> (Threw (null_error ''submission-alert''), st1) | Some alertDiv \<Rightarrow>
      let st2 = st1\<lparr>submission_alert := Some
                  \<lparr> classList = classList_add ''alert-danger''
                                  (classList_remove [''alert-info''] (classList alertDiv)),
                    textContent = ''Error: '' @ failure_detail err
                                  @ ''. Check console for details.'' \<rparr>\<rparr>
      in showNotification ''error'' ''Submission Failed''
           ''The report submission to the server failed. Check the console for details.'' st2)"

definition onSubmit_settle :: "axios_outcome \<Rightarrow> page \<Rightarrow> completion \<times> page" where
  "onSubmit_settle outcome st =
     (case outcome of
        Failed err \<Rightarrow> onSubmit_catch err st
      | Responded data \<Rightarrow>
          (case onSubmit_then data st of
             (Threw e, st') \<Rightarrow>
               onSubmit_catch \<lparr> err_response = None, err_message = error_message e \<rparr> st'
           | (Returned, st') \<Rightarrow> (Returned, st')))"

subsection \<open>Startup\<close>

text \<open>
  What only the \<open>DOMContentLoaded\<close> listener consults: the two canvases, the add
  button, and whether the \<open>SignaturePad\<close> library and the \<open>initializeDropdowns\<close> hook
  are defined.
\<close>

record startup =
  techCanvas :: bool
  opManCanvas :: bool
  signaturePad_loaded :: bool
  addItemButton :: bool
  initializeDropdowns_defined :: bool

definition domContentLoaded :: "startup \<Rightarrow> page \<Rightarrow> completion \<times> page" where
  "domContentLoaded env st =
     (if techCanvas env \<and> \<not> signaturePad_loaded env
      then (Threw (ReferenceError ''SignaturePad is not defined''), st)
      else
      let st1 = (if techCanvas env then st\<lparr>techPad := Some True\<rparr> else st) in
      if opManCanvas env \<and> \<not> signaturePad_loaded env
      then (Threw (ReferenceError ''SignaturePad is not defined''), st1)
      else
      let st2 = (if opManCanvas env then st1\<lparr>opManPad := Some True\<rparr> else st1);
          st3 = (if addItemButton env then st2\<lparr>addItem_wired := True\<rparr> else st2);
          st4 = (if initializeDropdowns_defined env then emit DropdownsInitialized st3
                 else emit (ConsoleWarn
                   ''Dropdown initialization function (initializeDropdowns) not found.'') st3)
      in renderPendingItems st4)"

subsection \<open>Example pages and user actions\<close>

text \<open>
  A document with every element the script looks up, before \<open>DOMContentLoaded\<close>: the
  placeholder sits inside the list container, the inputs are blank, nothing is
  stored, and no signature pad exists yet.
\<close>

definition served_page :: page where
  "served_page =
     \<lparr> pendingItems = [],
       customAlertModal = True,
       customAlertTitle = Some [],
       customAlertBody = Some [],
       modal_content_className = Some ''modal-content border-0'',
       bootstrap_loaded = True,
       pendingItemsList = Some [EmptyMessage],
       emptyListMessage_elsewhere = False,
       emptyListMessage_display = [],
       assetSelect = Some [],
       systemSelect = Some [],
       descriptionSelect = Some [],
       quantityInput = Some ''1'',
       brandInput = Some [],
       commentsTextarea = Some [],
       photoInput = Some [],
       status_text = Some [],
       submission_alert = Some \<lparr> classList = [''alert'', ''alert-info''], textContent = [] \<rparr>,
       downloadArea = Some [],
       techSignatureData = Some [],
       opManSignatureData = Some [],
       visitForm = Some [(''site_name'', ''Tower A''), (''tech_signature'', [])],
       techPad = None,
       opManPad = None,
       axios_loaded = True,
       addItem_wired = False,
       body_links = [],
       timers = [],
       next_link_id = 0,
       trace = [] \<rparr>"

definition full_startup :: startup where
  "full_startup =
     \<lparr> techCanvas = True, opManCanvas = True, signaturePad_loaded = True,
       addItemButton = True, initializeDropdowns_defined = True \<rparr>"

text \<open>The page once the startup listener has run on the served document.\<close>

definition ready_page :: page where
  "ready_page = snd (domContentLoaded full_startup served_page)"

text \<open>The user picks an asset, a system and a description, and types a quantity.\<close>

definition user_selects :: "string \<Rightarrow> string \<Rightarrow> string \<Rightarrow> string \<Rightarrow> page \<Rightarrow> page" where
  "user_selects a s d q st =
     st\<lparr>assetSelect := Some a, systemSelect := Some s, descriptionSelect := Some d,
        quantityInput := Some q\<rparr>"


text \<open>The user draws on the technician pad, and the page stores the drawing.\<close>

definition user_signs :: "string \<Rightarrow> page \<Rightarrow> page" where
  "user_signs sig st = st\<lparr>techPad := Some False, techSignatureData := Some sig\<rparr>"

text \<open>Two items, and the pages after adding the first and then the second.\<close>

definition pump :: report_item where
  "pump = \<lparr> asset = ''Pump'', system = ''HVAC'', description = ''Leak'', quantity = Num 2,
            brand = [], comments = [], photoFiles = [] \<rparr>"

definition fan :: report_item where
  "fan = \<lparr> asset = ''Fan'', system = ''HVAC'', description = ''Noise'', quantity = Num 1,
           brand = [], comments = [], photoFiles = [] \<rparr>"

definition one_item_page :: page where
  "one_item_page = snd (handleAddItem (user_selects ''Pump'' ''HVAC'' ''Leak'' ''2'' ready_page))"

definition two_items_page :: page where
  "two_items_page = snd (handleAddItem (user_selects ''Fan'' ''HVAC'' ''Noise'' ''1'' one_item_page))"

text \<open>A server error whose body is an object without a \<open>message\<close> property.\<close>

definition error_without_message :: submit_error where
  "error_without_message =
     \<lparr> err_response = Some (DataObject \<lparr> pdf_url = None, excel_url = None, message = None \<rparr>),
       err_message = ''Request failed with status code 500'' \<rparr>"

subsection \<open>Observations\<close>

text \<open>
  What the claims speak of, read off a page: the calls of \<open>showNotification\<close>, the
  POST requests and the clicks on download links so far, the event loop running the
  next \<open>n\<close> timer tasks, and the required fields of a stored item.
\<close>

fun is_notification :: "event \<Rightarrow> bool" where
  "is_notification (NotificationCall k t m) = True"
| "is_notification e = False"

fun is_post :: "event \<Rightarrow> bool" where
  "is_post (AxiosPost url body) = True"
| "is_post e = False"

fun is_click :: "event \<Rightarrow> bool" where
  "is_click (LinkClicked l) = True"
| "is_click e = False"

definition notification_calls :: "page \<Rightarrow> event list" where
  "notification_calls st = filter is_notification (trace st)"

definition posts :: "page \<Rightarrow> event list" where
  "posts st = filter is_post (trace st)"

definition clicks :: "page \<Rightarrow> event list" where
  "clicks st = filter is_click (trace st)"

fun run_timers :: "nat \<Rightarrow> page \<Rightarrow> page" where
  "run_timers 0 st = st"
| "run_timers (Suc n) st =
     (case run_timer st of None \<Rightarrow> st | Some (c, st') \<Rightarrow> run_timers n st')"

definition valid_item :: "report_item \<Rightarrow> bool" where
  "valid_item item = (asset item \<noteq> [] \<and> system item \<noteq> [] \<and> description item \<noteq> [])"

definition store_ok :: "page \<Rightarrow> bool" where
  "store_ok st = list_all valid_item (pendingItems st)"

definition links_fresh :: "page \<Rightarrow> bool" where
  "links_fresh st = list_all (\<lambda>l. link_id l < next_link_id st) (body_links st)"

text \<open>What the list shows for a store: the placeholder, or one row per item.\<close>

definition list_view :: "report_item list \<Rightarrow> list_child list" where
  "list_view items = (if items = [] then [EmptyMessage] else rows_from 0 items)"

text \<open>A decimal digit, as \<open>js_string_of_nat\<close> writes it.\<close>

definition is_decimal :: "char \<Rightarrow> bool" where
  "is_decimal c = (\<exists>d<10. c = digit_char d)"

section \<open>Properties\<close>

subsection \<open>Decimal strings are parsed back\<close>

lemma digit_value_digit_char: "d < 10 \<Longrightarrow> digit_value (digit_char d) = Some d"
  by (simp add: digit_value_def digit_char_def)

lemma is_decimal_facts:
  assumes "is_decimal c"
  shows "\<not> is_js_whitespace c" "c \<noteq> CHR ''-''" "c \<noteq> CHR ''+''" "c \<noteq> CHR ''x''" "c \<noteq> CHR ''X''"
    "\<exists>d. digit_value c = Some d \<and> d < 10"
proof -
  from assms obtain d where d: "d < 10" "c = digit_char d"
    by (auto simp: is_decimal_def)
  then have oc: "(of_char c :: nat) = 48 + d"
    by (simp add: digit_char_def)
  from oc d show "\<not> is_js_whitespace c" by (simp add: is_js_whitespace_def)
  have "(of_char CHR ''-'' :: nat) = 45" "(of_char CHR ''+'' :: nat) = 43" "(of_char CHR ''x'' :: nat) = 120" "(of_char CHR ''X'' :: nat) = 88" by simp_all
  with oc d(1) show "c \<noteq> CHR ''-''" "c \<noteq> CHR ''+''" "c \<noteq> CHR ''x''" "c \<noteq> CHR ''X''" by force+
  from d show "\<exists>d. digit_value c = Some d \<and> d < 10" by (simp add: digit_value_digit_char)
qed

lemma leading_digits_append:
  "list_all (\<lambda>c. \<exists>d. digit_value c = Some d \<and> d < R) s \<Longrightarrow>
   leading_digits R (s @ t) = leading_digits R s @ leading_digits R t"
  by (induction s) auto

lemma radix_value_snoc: "radix_value R (ds @ [d]) = radix_value R ds * R + d"
  by (simp add: radix_value_def)

lemma decimal_digits:
  "js_string_of_nat n \<noteq> [] \<and> list_all is_decimal (js_string_of_nat n)
   \<and> leading_digits 10 (js_string_of_nat n) \<noteq> []
   \<and> radix_value 10 (leading_digits 10 (js_string_of_nat n)) = n"
proof (induction n rule: js_string_of_nat.induct)
  case (1 n)
  show ?case
  proof (cases "n < 10")
    case True
    then have "is_decimal (digit_char n)" by (auto simp: is_decimal_def)
    moreover from True have "js_string_of_nat n = [digit_char n]"
      by (subst js_string_of_nat.simps) simp
    ultimately show ?thesis using True
      by (simp add: digit_value_digit_char radix_value_def)
  next
    case False
    with 1 have IH: "list_all is_decimal (js_string_of_nat (n div 10))"
      "radix_value 10 (leading_digits 10 (js_string_of_nat (n div 10))) = n div 10"
      by simp_all
    from IH(1) have ds: "list_all (\<lambda>c. \<exists>d. digit_value c = Some d \<and> d < 10) (js_string_of_nat (n div 10))"
      by (simp add: list_all_iff is_decimal_facts(6))
    have m: "n mod 10 < 10" by simp
    then have m': "is_decimal (digit_char (n mod 10))" unfolding is_decimal_def by blast
    from False have eq: "js_string_of_nat n = js_string_of_nat (n div 10) @ [digit_char (n mod 10)]"
      by (subst js_string_of_nat.simps) simp
    from IH ds m m' show ?thesis unfolding eq
      by (simp add: leading_digits_append digit_value_digit_char radix_value_snoc)
  qed
qed

lemma parseInt_decimal:
  assumes "s \<noteq> []" "list_all is_decimal s"
  shows "parseInt s = (if leading_digits 10 s = [] then NaN else to_number (int (radix_value 10 (leading_digits 10 s))))"
    and "parseInt (CHR ''-'' # s) = (if leading_digits 10 s = [] then NaN else to_number (- int (radix_value 10 (leading_digits 10 s))))"
proof -
  from assms obtain c cs where s: "s = c # cs" and c: "is_decimal c" and cs: "list_all is_decimal cs"
    by (cases s) auto
  have hex: "\<not> (case s of a # b # _ \<Rightarrow> a = CHR ''0'' \<and> (b = CHR ''x'' \<or> b = CHR ''X'') | _ \<Rightarrow> False)"
    using s cs by (cases cs) (auto dest: is_decimal_facts)
  have minus: "\<not> is_js_whitespace CHR ''-''" by (simp add: is_js_whitespace_def)
  have dw: "dropWhile is_js_whitespace s = s" using s is_decimal_facts(1)[OF c] by simp
  show "parseInt s = (if leading_digits 10 s = [] then NaN else to_number (int (radix_value 10 (leading_digits 10 s))))"
    using hex is_decimal_facts[OF c] dw s unfolding parseInt_def by (simp add: Let_def)
  show "parseInt (CHR ''-'' # s) = (if leading_digits 10 s = [] then NaN else to_number (- int (radix_value 10 (leading_digits 10 s))))"
    using hex minus unfolding parseInt_def by (simp add: Let_def)
qed

lemma parseInt_string_of_nat: "parseInt (js_string_of_nat n) = to_number (int n)"
  using decimal_digits[of n] by (simp add: parseInt_decimal(1))

lemma parseInt_string_of_int: "parseInt (js_string_of_int i) = to_number i"
  using decimal_digits[of "nat (- i)"] decimal_digits[of "nat i"]
  by (simp add: js_string_of_int_def parseInt_decimal)

subsection \<open>The example pages, evaluated\<close>

lemma ready_page_eq:
  "ready_page = served_page\<lparr>techPad := Some True, opManPad := Some True, addItem_wired := True,
      trace := [DropdownsInitialized], emptyListMessage_display := ''block''\<rparr>"
  by (simp add: ready_page_def domContentLoaded_def full_startup_def served_page_def
      renderPendingItems_def emptyMessage_found_def emit_def)

subsection \<open>Submission with an empty technician signature\<close>

text \<open>
  Claim C1. Whenever the technician pad exists and reports that it is empty,
  \<open>onSubmit\<close> issues no POST, whatever else the page holds: the requests on the trace
  are the ones that were there, and the stored items, the status line and the timer
  queue are untouched. Where the download area, the hidden signature field and the
  banner exist, it returns normally, and the page it leaves differs from the one it
  found in three places only: the default action is prevented, the download area is
  cleared, and the banner carries \<open>alert-warning\<close> instead of \<open>alert-info\<close> with the
  request to sign. Nothing is pending, so the user can sign and submit again.
\<close>

theorem onSubmit_empty_signature_blocks_post:
  assumes "techPad st = Some True"
  shows "posts (snd (onSubmit st)) = posts st
       \<and> pendingItems (snd (onSubmit st)) = pendingItems st
       \<and> status_text (snd (onSubmit st)) = status_text st
       \<and> timers (snd (onSubmit st)) = timers st
       \<and> (downloadArea st \<noteq> None \<and> techSignatureData st \<noteq> None
            \<and> submission_alert st = Some alertDiv \<longrightarrow>
           onSubmit st = (Returned,
             st\<lparr>trace := trace st @ [PreventDefault], downloadArea := Some [],
                submission_alert := Some
                  \<lparr> classList = classList_add ''alert-warning''
                                  (classList_remove [''alert-info''] (classList alertDiv)),
                    textContent = ''Please provide the Technician Signature before submitting.'' \<rparr>\<rparr>))"
  using assms
  by (auto simp add: onSubmit_def emit_def posts_def Let_def split: option.splits)

theorem onSubmit_empty_signature_witness:
  "techPad ready_page = Some True
   \<and> posts (snd (onSubmit ready_page)) = []
   \<and> fst (onSubmit ready_page) = Returned
   \<and> submission_alert (snd (onSubmit ready_page)) = Some
        \<lparr> classList = [''alert'', ''alert-warning''],
          textContent = ''Please provide the Technician Signature before submitting.'' \<rparr>"
  using onSubmit_empty_signature_blocks_post
    [of ready_page "\<lparr> classList = [''alert'', ''alert-info''], textContent = [] \<rparr>"]
  by (simp add: ready_page_eq served_page_def posts_def classList_add_def classList_remove_def)

subsection \<open>Submission when the technician pad was never constructed\<close>

lemma map_of_insert_index:
  "map_of obj k = None \<Longrightarrow> map_of (insert_index k v obj) = (map_of obj)(k \<mapsto> v)"
  by (induction obj) (auto simp add: fun_upd_twist split: if_splits)

lemma map_add_single:
  "m k = None \<Longrightarrow> [k \<mapsto> v] ++ m = m(k \<mapsto> v)"
  by (auto simp add: fun_eq_iff map_add_def split: option.splits)

lemma map_of_obj_set:
  "k \<noteq> ''__proto__'' \<Longrightarrow> map_of (obj_set k v obj) = (map_of obj)(k \<mapsto> v)"
  by (cases "map_of obj k")
     (simp_all add: obj_set_def update_conv' map_of_insert_index map_add_single)

lemma onSubmit_returns_without_post:
  assumes "fst (onSubmit st) = Returned" "posts (snd (onSubmit st)) = posts st"
  shows "techPad st = Some True"
  using assms
  by (auto simp add: onSubmit_def emit_def posts_def Let_def split: option.splits if_splits)

text \<open>
  Claim C10. When \<open>window.techPad\<close> was never assigned, the empty-signature check is
  skipped: on a page that has the elements a submission reads and the axios
  library, \<open>onSubmit\<close> returns after issuing one POST to \<open>/submit-report\<close> whose
  \<open>tech_signature\<close> is whatever the hidden field holds (the empty string included)
  and whose \<open>report_items\<close> are the stored items. The startup listener leaves the pad
  unassigned when the technician canvas is absent. Conversely, on any page, a normal
  return without a POST happens only when the pad exists and reports empty.
\<close>

theorem onSubmit_without_pad_posts:
  assumes "techPad st = None"
    and "downloadArea st = Some d" and "techSignatureData st = Some techSigData"
    and "visitForm st = Some entries" and "opManSignatureData st = Some opManSigData"
    and "status_text st = Some s" and "submission_alert st = Some alertDiv"
    and "axios_loaded st"
  shows "fst (onSubmit st) = Returned
       \<and> (\<exists>body. posts (snd (onSubmit st)) = posts st @ [AxiosPost ''/submit-report'' body]
             \<and> map_of body ''tech_signature'' = Some (JString techSigData)
             \<and> map_of body ''report_items'' = Some (JItems (pendingItems st)))
       \<and> (\<not> techCanvas env \<longrightarrow> techPad (snd (domContentLoaded env st)) = None)
       \<and> (fst (onSubmit st') = Returned \<and> posts (snd (onSubmit st')) = posts st'
            \<longrightarrow> techPad st' = Some True)"
proof -
  have "techPad (snd (domContentLoaded env st)) = None" if "\<not> techCanvas env"
    using that assms(1)
    by (simp add: domContentLoaded_def renderPendingItems_def emit_def Let_def)
  moreover have "fst (onSubmit st) = Returned"
    using assms by (simp add: onSubmit_def emit_def Let_def)
  moreover have "\<exists>body. posts (snd (onSubmit st)) = posts st @ [AxiosPost ''/submit-report'' body]
             \<and> map_of body ''tech_signature'' = Some (JString techSigData)
             \<and> map_of body ''report_items'' = Some (JItems (pendingItems st))"
    using assms by (simp add: onSubmit_def emit_def posts_def Let_def map_of_obj_set)
  ultimately show ?thesis
    using onSubmit_returns_without_post[of st'] by blast
qed

theorem onSubmit_without_pad_witness:
  "techPad served_page = None \<and> techSignatureData served_page = Some []
   \<and> fst (onSubmit served_page) = Returned
   \<and> posts (snd (onSubmit served_page)) =
       [AxiosPost ''/submit-report''
          [(''site_name'', JString ''Tower A''), (''tech_signature'', JString []),
           (''opMan_signature'', JString []), (''report_items'', JItems [])]]"
  using onSubmit_without_pad_posts[of served_page "[]" "[]" "[(''site_name'', ''Tower A''), (''tech_signature'', [])]"
      "[]" "[]" "\<lparr> classList = [''alert'', ''alert-info''], textContent = [] \<rparr>"]
  by (simp add: served_page_def onSubmit_def emit_def posts_def Let_def form_object_def
      obj_set_def is_array_index_def digit_value_def)

subsection \<open>The two downloads after a successful response\<close>

lemma showNotification_queue:
  "clicks (snd (showNotification k t m st)) = clicks st"
  "timers (snd (showNotification k t m st)) = timers st"
  "body_links (snd (showNotification k t m st)) = body_links st"
  by (simp_all add: showNotification_def emit_def clicks_def Let_def split: option.splits)

lemma run_timer_click:
  assumes "timers st = ClickAndRemove l # rest" "l \<in> set (body_links st)"
  shows "run_timer st = Some (Returned,
           st\<lparr>timers := rest, trace := trace st @ [LinkClicked l],
              body_links := remove1 l (body_links st)\<rparr>)"
  using assms by (simp add: run_timer_def emit_def)

lemma onSubmit_then_queue:
  assumes "status_text st = Some s" and "submission_alert st = Some alertDiv"
    and "data \<noteq> DataNull"
  shows "clicks (snd (onSubmit_then data st)) = clicks st"
    and "timers (snd (onSubmit_then data st)) = timers st @
          [ClickAndRemove \<lparr> link_id = next_link_id st,
                     href = or_else (pdf_url (response_fields data)) ''/download-pdf'',
                     download = ''Site_Visit_Report.pdf'', link_display = ''none'' \<rparr>,
           ClickAndRemove \<lparr> link_id = Suc (next_link_id st),
                      href = or_else (excel_url (response_fields data)) ''/download-excel'',
                      download = ''Site_Visit_Report.xlsx'', link_display = ''none'' \<rparr>]"
    and "body_links (snd (onSubmit_then data st)) = body_links st @
          [\<lparr> link_id = next_link_id st,
                     href = or_else (pdf_url (response_fields data)) ''/download-pdf'',
                     download = ''Site_Visit_Report.pdf'', link_display = ''none'' \<rparr>,
           \<lparr> link_id = Suc (next_link_id st),
                      href = or_else (excel_url (response_fields data)) ''/download-excel'',
                      download = ''Site_Visit_Report.xlsx'', link_display = ''none'' \<rparr>]"
proof -
  have split: "(case data of DataNull \<Rightarrow> x | _ \<Rightarrow> y) = y" for x y :: "completion \<times> page"
    using assms(3) by (cases data) simp_all
  show "clicks (snd (onSubmit_then data st)) = clicks st"
    using assms(1,2)
    by (simp add: onSubmit_then_def split showNotification_queue triggerDownload_def Let_def)
       (simp add: clicks_def)
  show "timers (snd (onSubmit_then data st)) = timers st @
          [ClickAndRemove \<lparr> link_id = next_link_id st,
                     href = or_else (pdf_url (response_fields data)) ''/download-pdf'',
                     download = ''Site_Visit_Report.pdf'', link_display = ''none'' \<rparr>,
           ClickAndRemove \<lparr> link_id = Suc (next_link_id st),
                      href = or_else (excel_url (response_fields data)) ''/download-excel'',
                      download = ''Site_Visit_Report.xlsx'', link_display = ''none'' \<rparr>]"
    using assms(1,2)
    by (simp add: onSubmit_then_def split showNotification_queue triggerDownload_def Let_def)
  show "body_links (snd (onSubmit_then data st)) = body_links st @
          [\<lparr> link_id = next_link_id st,
                     href = or_else (pdf_url (response_fields data)) ''/download-pdf'',
                     download = ''Site_Visit_Report.pdf'', link_display = ''none'' \<rparr>,
           \<lparr> link_id = Suc (next_link_id st),
                      href = or_else (excel_url (response_fields data)) ''/download-excel'',
                      download = ''Site_Visit_Report.xlsx'', link_display = ''none'' \<rparr>]"
    using assms(1,2)
    by (simp add: onSubmit_then_def split showNotification_queue triggerDownload_def Let_def)
qed

text \<open>
  Claim C4, as the script has it. On a response whose body is not \<open>null\<close>, the handler
  creates and appends two invisible links, first the one named
  \<open>Site_Visit_Report.pdf\<close> and then the one named \<open>Site_Visit_Report.xlsx\<close>, and
  queues one timer task for each; it clicks neither. Both clicks are deferred: when
  no older task is queued, the first task clicks the PDF link and removes it, the
  second clicks the spreadsheet link and removes it, and the document's links are
  then what they were before the response.
\<close>

theorem downloads_are_both_deferred:
  assumes "status_text st = Some s" and "submission_alert st = Some alertDiv"
    and "data \<noteq> DataNull"
  shows "let pdf = \<lparr> link_id = next_link_id st,
                     href = or_else (pdf_url (response_fields data)) ''/download-pdf'',
                     download = ''Site_Visit_Report.pdf'', link_display = ''none'' \<rparr>;
             xlsx = \<lparr> link_id = Suc (next_link_id st),
                      href = or_else (excel_url (response_fields data)) ''/download-excel'',
                      download = ''Site_Visit_Report.xlsx'', link_display = ''none'' \<rparr>;
             st' = snd (onSubmit_then data st)
         in clicks st' = clicks st
          \<and> timers st' = timers st @ [ClickAndRemove pdf, ClickAndRemove xlsx]
          \<and> body_links st' = body_links st @ [pdf, xlsx]
          \<and> (timers st = [] \<and> links_fresh st \<longrightarrow>
                clicks (run_timers 1 st') = clicks st @ [LinkClicked pdf]
              \<and> clicks (run_timers 2 st') = clicks st @ [LinkClicked pdf, LinkClicked xlsx]
              \<and> body_links (run_timers 2 st') = body_links st
              \<and> timers (run_timers 2 st') = [])"
proof -
  define pdf where "pdf = \<lparr> link_id = next_link_id st,
                     href = or_else (pdf_url (response_fields data)) ''/download-pdf'',
                     download = ''Site_Visit_Report.pdf'', link_display = ''none'' \<rparr>"
  define xlsx where "xlsx = \<lparr> link_id = Suc (next_link_id st),
                      href = or_else (excel_url (response_fields data)) ''/download-excel'',
                      download = ''Site_Visit_Report.xlsx'', link_display = ''none'' \<rparr>"
  define st' where "st' = snd (onSubmit_then data st)"
  have C: "clicks st' = clicks st"
    and T: "timers st' = timers st @ [ClickAndRemove pdf, ClickAndRemove xlsx]"
    and B: "body_links st' = body_links st @ [pdf, xlsx]"
    unfolding st'_def pdf_def xlsx_def by (rule onSubmit_then_queue[OF assms])+
  have later: "clicks (run_timers 1 st') = clicks st @ [LinkClicked pdf]
              \<and> clicks (run_timers 2 st') = clicks st @ [LinkClicked pdf, LinkClicked xlsx]
              \<and> body_links (run_timers 2 st') = body_links st
              \<and> timers (run_timers 2 st') = []"
    if E: "timers st = []" and F: "links_fresh st"
  proof -
    from F have np: "pdf \<notin> set (body_links st)" and nx: "xlsx \<notin> set (body_links st)"
      by (auto simp: links_fresh_def list_all_iff pdf_def xlsx_def)
    have ne: "pdf \<noteq> xlsx" by (simp add: pdf_def xlsx_def)
    from T E have T': "timers st' = ClickAndRemove pdf # [ClickAndRemove xlsx]" by simp
    define st1 where "st1 = st'\<lparr>timers := [ClickAndRemove xlsx], trace := trace st' @ [LinkClicked pdf],
              body_links := body_links st @ [xlsx]\<rparr>"
    define st2 where "st2 = st1\<lparr>timers := [], trace := trace st1 @ [LinkClicked xlsx],
              body_links := body_links st\<rparr>"
    have r1: "run_timer st' = Some (Returned, st1)"
      using run_timer_click[OF T'] B np by (simp add: remove1_append st1_def)
    have "timers st1 = ClickAndRemove xlsx # []" "xlsx \<in> set (body_links st1)"
      by (simp_all add: st1_def)
    from run_timer_click[OF this] have r2: "run_timer st1 = Some (Returned, st2)"
      using nx by (simp add: remove1_append st2_def st1_def)
    have one: "run_timers 1 st' = st1"
      using r1 by simp
    have two: "run_timers 2 st' = st2"
      using r1 r2 by (simp add: numeral_2_eq_2)
    show ?thesis
      using C unfolding one two by (simp add: clicks_def st1_def st2_def)
  qed
  show ?thesis
    unfolding Let_def pdf_def[symmetric] xlsx_def[symmetric] st'_def[symmetric]
    using C T B later by blast
qed


theorem downloads_are_both_deferred_witness:
  "(let st' = snd (onSubmit_then (DataObject \<lparr> pdf_url = Some ''/f.pdf'', excel_url = None, message = None \<rparr>) ready_page);
       pdf = \<lparr> link_id = 0, href = ''/f.pdf'', download = ''Site_Visit_Report.pdf'', link_display = ''none'' \<rparr>;
       xlsx = \<lparr> link_id = 1, href = ''/download-excel'', download = ''Site_Visit_Report.xlsx'', link_display = ''none'' \<rparr>
    in clicks st' = [] \<and> timers st' = [ClickAndRemove pdf, ClickAndRemove xlsx]
     \<and> clicks (run_timers 1 st') = [LinkClicked pdf]
     \<and> clicks (run_timers 2 st') = [LinkClicked pdf, LinkClicked xlsx]
     \<and> body_links (run_timers 2 st') = [])"
proof -
  have h: "status_text ready_page = Some []"
    "submission_alert ready_page = Some \<lparr> classList = [''alert'', ''alert-info''], textContent = [] \<rparr>"
    "DataObject \<lparr> pdf_url = Some ''/f.pdf'', excel_url = None, message = None \<rparr> \<noteq> DataNull"
    and g: "timers ready_page = []" "links_fresh ready_page" "next_link_id ready_page = 0"
    "clicks ready_page = []" "body_links ready_page = []"
    by (simp_all add: ready_page_eq served_page_def links_fresh_def clicks_def)
  show ?thesis
    using downloads_are_both_deferred[OF h] g
    by (simp add: Let_def response_fields_def or_else_def)
qed

text \<open>
  The claim as stated has the first click inside the response handler. It is not:
  when the handler has finished, no link has been clicked and both tasks are
  waiting in the timer queue.
\<close>

theorem first_download_is_not_immediate:
  "clicks (snd (onSubmit_then (DataObject \<lparr> pdf_url = Some ''/f.pdf'', excel_url = Some ''/f.xlsx'', message = None \<rparr>) ready_page)) = []
   \<and> timers (snd (onSubmit_then (DataObject \<lparr> pdf_url = Some ''/f.pdf'', excel_url = Some ''/f.xlsx'', message = None \<rparr>) ready_page))
      = [ClickAndRemove \<lparr> link_id = 0, href = ''/f.pdf'', download = ''Site_Visit_Report.pdf'', link_display = ''none'' \<rparr>,
         ClickAndRemove \<lparr> link_id = 1, href = ''/f.xlsx'', download = ''Site_Visit_Report.xlsx'', link_display = ''none'' \<rparr>]"
  by (simp add: ready_page_eq served_page_def onSubmit_then_def showNotification_queue triggerDownload_def
      Let_def response_fields_def or_else_def)
     (simp add: clicks_def)

subsection \<open>Adding an item\<close>

lemma showNotification_store:
  "pendingItems (snd (showNotification k t m st)) = pendingItems st"
  "notification_calls (snd (showNotification k t m st)) = notification_calls st @ [NotificationCall k t m]"
  "posts (snd (showNotification k t m st)) = posts st"
  by (simp_all add: showNotification_def emit_def notification_calls_def posts_def Let_def
      split: option.splits)

lemma renderPendingItems_store:
  "fst (renderPendingItems st) = Returned"
  "pendingItems (snd (renderPendingItems st)) = pendingItems st"
  "notification_calls (snd (renderPendingItems st)) = notification_calls st"
  "posts (snd (renderPendingItems st)) = posts st"
  by (simp_all add: renderPendingItems_def emit_def notification_calls_def posts_def Let_def)

lemma reset_inputs_store:
  "pendingItems (snd (reset_inputs st)) = pendingItems st"
  "notification_calls (snd (reset_inputs st)) = notification_calls st"
  by (simp_all add: reset_inputs_def notification_calls_def Let_def split: option.splits)

lemma handleAddItem_catch_store:
  "pendingItems (snd (handleAddItem_catch r st)) = pendingItems st"
  "notification_calls (snd (handleAddItem_catch r st)) =
     notification_calls st @ [NotificationCall ''error'' ''Photo Error'' ''Failed to process photos.'']"
  by (simp_all add: handleAddItem_catch_def showNotification_store)
     (simp_all add: emit_def notification_calls_def)

lemma handleAddItem_then_store:
  "pendingItems (snd (handleAddItem_then cl arr st)) =
     pendingItems st @ [\<lparr> asset = c_asset cl, system = c_system cl, description = c_description cl,
                       quantity = or_one (parseInt (c_quantity cl)),
                       brand = c_brand cl, comments = c_comments cl, photoFiles = arr \<rparr>]"
proof -
  define st1 where "st1 = st\<lparr>pendingItems := pendingItems st @ [\<lparr> asset = c_asset cl, system = c_system cl, description = c_description cl,
                       quantity = or_one (parseInt (c_quantity cl)),
                       brand = c_brand cl, comments = c_comments cl, photoFiles = arr \<rparr>]\<rparr>"
  obtain c2 st2 where r: "renderPendingItems st1 = (c2, st2)" by (cases "renderPendingItems st1")
  then have c2: "c2 = Returned" and p2: "pendingItems st2 = pendingItems st1"
    using renderPendingItems_store(1,2)[of st1] by simp_all
  obtain c3 st3 where i: "reset_inputs st2 = (c3, st3)" by (cases "reset_inputs st2")
  then have p3: "pendingItems st3 = pendingItems st2"
    using reset_inputs_store(1)[of st2] by simp
  show ?thesis
    using r c2 p2 i p3 unfolding handleAddItem_then_def Let_def st1_def[symmetric]
    by (cases c3) (simp_all add: showNotification_store st1_def)
qed


lemma handleAddItem_settle_store:
  "promise_all (map fileToBase64 (c_files cl)) = Fulfilled arr \<Longrightarrow>
     pendingItems (snd (handleAddItem_settle cl st)) =
       pendingItems st @ [\<lparr> asset = c_asset cl, system = c_system cl, description = c_description cl,
                       quantity = or_one (parseInt (c_quantity cl)),
                       brand = c_brand cl, comments = c_comments cl, photoFiles = arr \<rparr>]"
  "promise_all (map fileToBase64 (c_files cl)) = Rejected r \<Longrightarrow>
     pendingItems (snd (handleAddItem_settle cl st)) = pendingItems st
     \<and> notification_calls (snd (handleAddItem_settle cl st)) =
         notification_calls st @ [NotificationCall ''error'' ''Photo Error'' ''Failed to process photos.'']"
proof -
  assume f: "promise_all (map fileToBase64 (c_files cl)) = Fulfilled arr"
  obtain c st' where t: "handleAddItem_then cl arr st = (c, st')"
    by (cases "handleAddItem_then cl arr st")
  with handleAddItem_then_store[of cl arr st] show "pendingItems (snd (handleAddItem_settle cl st)) =
       pendingItems st @ [\<lparr> asset = c_asset cl, system = c_system cl, description = c_description cl,
                       quantity = or_one (parseInt (c_quantity cl)),
                       brand = c_brand cl, comments = c_comments cl, photoFiles = arr \<rparr>]"
    using f by (cases c) (simp_all add: handleAddItem_settle_def handleAddItem_catch_store)
next
  assume "promise_all (map fileToBase64 (c_files cl)) = Rejected r"
  then show "pendingItems (snd (handleAddItem_settle cl st)) = pendingItems st
     \<and> notification_calls (snd (handleAddItem_settle cl st)) =
         notification_calls st @ [NotificationCall ''error'' ''Photo Error'' ''Failed to process photos.'']"
    by (simp add: handleAddItem_settle_def handleAddItem_catch_store)
qed

text \<open>What one add leaves in the store: nothing new, or one item built from the inputs.\<close>

lemma handleAddItem_begin_cases:
  "(\<exists>e st'. handleAddItem_begin st = (Begin_Threw e, st') \<and> pendingItems st' = pendingItems st)
 \<or> (\<exists>st'. handleAddItem_begin st = (Begin_Returned, st') \<and> pendingItems st' = pendingItems st)
 \<or> (\<exists>a s d q b c fs. handleAddItem_begin st =
        (Begin_Pending \<lparr> c_asset = a, c_system = s, c_description = d, c_quantity = q,
                         c_brand = b, c_comments = c, c_files = fs \<rparr>, st)
      \<and> assetSelect st = Some a \<and> systemSelect st = Some s \<and> descriptionSelect st = Some d
      \<and> quantityInput st = Some q \<and> brandInput st = Some b \<and> commentsTextarea st = Some c
      \<and> photoInput st = Some fs \<and> a \<noteq> [] \<and> s \<noteq> [] \<and> d \<noteq> [])"
proof -
  obtain cn sn where n: "showNotification ''error'' ''Missing Fields''
                   ''Please select an **Asset**, **System**, and **Description**.'' st = (cn, sn)"
    by (cases "showNotification ''error'' ''Missing Fields''
                   ''Please select an **Asset**, **System**, and **Description**.'' st")
  then have "pendingItems sn = pendingItems st"
    using showNotification_store(1)[of "''error''" "''Missing Fields''"
        "''Please select an **Asset**, **System**, and **Description**.''" st] by simp
  with n show ?thesis
    unfolding handleAddItem_begin_def
    by (cases cn) (simp_all split: option.splits)
qed

lemma handleAddItem_pending:
  assumes "assetSelect st = Some a" "systemSelect st = Some s" "descriptionSelect st = Some d"
    "quantityInput st = Some q" "brandInput st = Some b" "commentsTextarea st = Some c"
    "photoInput st = Some files" "a \<noteq> []" "s \<noteq> []" "d \<noteq> []"
  shows "handleAddItem st = handleAddItem_settle
           \<lparr> c_asset = a, c_system = s, c_description = d, c_quantity = q,
             c_brand = b, c_comments = c, c_files = files \<rparr> st"
  using assms by (simp add: handleAddItem_def handleAddItem_begin_def)



lemma handleAddItem_appends:
  "pendingItems (snd (handleAddItem st)) = pendingItems st
 \<or> (\<exists>a s d q b c urls.
       assetSelect st = Some a \<and> systemSelect st = Some s \<and> descriptionSelect st = Some d
     \<and> quantityInput st = Some q \<and> a \<noteq> [] \<and> s \<noteq> [] \<and> d \<noteq> []
     \<and> pendingItems (snd (handleAddItem st)) =
         pendingItems st @ [\<lparr> asset = a, system = s, description = d,
                              quantity = or_one (parseInt q), brand = b, comments = c,
                              photoFiles = urls \<rparr>])"
proof -
  consider
    (threw) e st' where "handleAddItem_begin st = (Begin_Threw e, st')" "pendingItems st' = pendingItems st"
  | (returned) st' where "handleAddItem_begin st = (Begin_Returned, st')" "pendingItems st' = pendingItems st"
  | (pending) a s d q b c fs where "handleAddItem_begin st =
        (Begin_Pending \<lparr> c_asset = a, c_system = s, c_description = d, c_quantity = q,
                         c_brand = b, c_comments = c, c_files = fs \<rparr>, st)"
      "assetSelect st = Some a" "systemSelect st = Some s" "descriptionSelect st = Some d"
      "quantityInput st = Some q" "a \<noteq> []" "s \<noteq> []" "d \<noteq> []"
    using handleAddItem_begin_cases[of st] by blast
  then show ?thesis
  proof cases
    case threw
    then show ?thesis by (simp add: handleAddItem_def)
  next
    case returned
    then show ?thesis by (simp add: handleAddItem_def)
  next
    case pending
    let ?cl = "\<lparr> c_asset = a, c_system = s, c_description = d, c_quantity = q,
                         c_brand = b, c_comments = c, c_files = fs \<rparr>"
    have run: "handleAddItem st = handleAddItem_settle ?cl st"
      using pending(1) by (simp add: handleAddItem_def)
    show ?thesis
    proof (cases "promise_all (map fileToBase64 (c_files ?cl))")
      case (Fulfilled arr)
      from handleAddItem_settle_store(1)[OF this, of st] pending(2-) show ?thesis
        unfolding run by auto
    next
      case (Rejected r)
      from handleAddItem_settle_store(2)[OF this, of st] show ?thesis
        unfolding run by simp
    qed
  qed
qed

lemma list_all_splice1: "list_all P xs \<Longrightarrow> list_all P (splice1 n xs)"
  by (auto simp add: splice1_def Let_def list_all_iff dest: in_set_takeD in_set_dropD)

text \<open>
  Claim C3. One add either leaves the store as it was or appends one item, and an
  appended item carries the values of the three required inputs, all non-empty.
  With the inputs present and one of the three empty, the store is unchanged and
  \<open>showNotification\<close> is called exactly once, with the missing-fields error. So a
  store whose items all have their required fields keeps that property under an
  add, under a click on a remove button (whatever its \<open>data-index\<close>) and under a
  render.
\<close>

theorem required_fields_guard:
  assumes "store_ok st"
  shows "store_ok (snd (handleAddItem st))
       \<and> (pendingItems (snd (handleAddItem st)) = pendingItems st
          \<or> (\<exists>item. pendingItems (snd (handleAddItem st)) = pendingItems st @ [item]
                \<and> assetSelect st = Some (asset item) \<and> systemSelect st = Some (system item)
                \<and> descriptionSelect st = Some (description item) \<and> valid_item item))
       \<and> (assetSelect st = Some a \<and> systemSelect st = Some s \<and> descriptionSelect st = Some d
            \<and> quantityInput st \<noteq> None \<and> brandInput st \<noteq> None \<and> commentsTextarea st \<noteq> None
            \<and> (a = [] \<or> s = [] \<or> d = []) \<longrightarrow>
            pendingItems (snd (handleAddItem st)) = pendingItems st
          \<and> notification_calls (snd (handleAddItem st)) =
              notification_calls st
              @ [NotificationCall ''error'' ''Missing Fields''
                   ''Please select an **Asset**, **System**, and **Description**.''])
       \<and> store_ok (snd (remove_item_click attr st))
       \<and> store_ok (snd (renderPendingItems st))"
proof -
  have app: "pendingItems (snd (handleAddItem st)) = pendingItems st
          \<or> (\<exists>item. pendingItems (snd (handleAddItem st)) = pendingItems st @ [item]
                \<and> assetSelect st = Some (asset item) \<and> systemSelect st = Some (system item)
                \<and> descriptionSelect st = Some (description item) \<and> valid_item item)"
    using handleAddItem_appends[of st] by (fastforce simp add: valid_item_def)
  then have inv: "store_ok (snd (handleAddItem st))"
    using assms by (auto simp add: store_ok_def)
  have missing: "pendingItems (snd (handleAddItem st)) = pendingItems st
          \<and> notification_calls (snd (handleAddItem st)) =
              notification_calls st
              @ [NotificationCall ''error'' ''Missing Fields''
                   ''Please select an **Asset**, **System**, and **Description**.'']"
    if "assetSelect st = Some a" "systemSelect st = Some s" "descriptionSelect st = Some d"
      "quantityInput st \<noteq> None" "brandInput st \<noteq> None" "commentsTextarea st \<noteq> None"
      "a = [] \<or> s = [] \<or> d = []"
  proof -
    obtain cn sn where n: "showNotification ''error'' ''Missing Fields''
                   ''Please select an **Asset**, **System**, and **Description**.'' st = (cn, sn)"
      by (cases "showNotification ''error'' ''Missing Fields''
                   ''Please select an **Asset**, **System**, and **Description**.'' st")
    from that n have "snd (handleAddItem st) = sn"
      by (cases cn) (auto simp add: handleAddItem_def handleAddItem_begin_def)
    moreover from n have "pendingItems sn = pendingItems st"
      "notification_calls sn = notification_calls st
              @ [NotificationCall ''error'' ''Missing Fields''
                   ''Please select an **Asset**, **System**, and **Description**.'']"
      using showNotification_store(1,2)[of "''error''" "''Missing Fields''"
        "''Please select an **Asset**, **System**, and **Description**.''" st] by simp_all
    ultimately show ?thesis by simp
  qed
  have rem: "store_ok (snd (remove_item_click attr st))"
    using assms
    by (simp add: remove_item_click_def renderPendingItems_store store_ok_def list_all_splice1)
  have ren: "store_ok (snd (renderPendingItems st))"
    using assms by (simp add: renderPendingItems_store store_ok_def)
  from app inv missing rem ren show ?thesis by blast
qed

theorem required_fields_guard_witness:
  "store_ok ready_page
   \<and> store_ok (snd (handleAddItem (user_selects ''Pump'' [] ''Leak'' ''2'' ready_page)))
   \<and> pendingItems (snd (handleAddItem (user_selects ''Pump'' [] ''Leak'' ''2'' ready_page))) = []
   \<and> notification_calls (snd (handleAddItem (user_selects ''Pump'' [] ''Leak'' ''2'' ready_page))) =
       [NotificationCall ''error'' ''Missing Fields''
          ''Please select an **Asset**, **System**, and **Description**.'']"
proof -
  define st where "st = user_selects ''Pump'' [] ''Leak'' ''2'' ready_page"
  have h: "store_ok st" "assetSelect st = Some ''Pump''" "systemSelect st = Some []"
    "descriptionSelect st = Some ''Leak''" "quantityInput st \<noteq> None" "brandInput st \<noteq> None"
    "commentsTextarea st \<noteq> None" "pendingItems st = []" "notification_calls st = []"
    "store_ok ready_page"
    by (simp_all add: st_def user_selects_def ready_page_eq served_page_def store_ok_def
        notification_calls_def)
  show ?thesis
    unfolding st_def[symmetric]
    using required_fields_guard[OF h(1), of "''Pump''" "[]" "''Leak''" "''0''"] h
    by simp
qed

lemma handleAddItem_without_photos:
  assumes "assetSelect st = Some a" "systemSelect st = Some s" "descriptionSelect st = Some d"
    "quantityInput st = Some q" "brandInput st = Some b" "commentsTextarea st = Some c"
    "photoInput st = Some []" "a \<noteq> []" "s \<noteq> []" "d \<noteq> []"
  shows "pendingItems (snd (handleAddItem st)) =
           pendingItems st @ [\<lparr> asset = a, system = s, description = d,
                                quantity = or_one (parseInt q), brand = b, comments = c,
                                photoFiles = [] \<rparr>]"
proof -
  let ?cl = "\<lparr> c_asset = a, c_system = s, c_description = d, c_quantity = q,
             c_brand = b, c_comments = c, c_files = [] \<rparr>"
  have "promise_all (map fileToBase64 (c_files ?cl)) = Fulfilled []" by simp
  from handleAddItem_settle_store(1)[OF this, of st] show ?thesis
    by (simp add: handleAddItem_pending[OF assms])
qed

lemma parseInt_range:
  "parseInt q = NaN \<or> (\<exists>n. parseInt q = to_number n)"
  unfolding parseInt_def Let_def by (simp split: if_splits) blast

lemma or_one_to_number:
  "or_one (to_number n) =
     (if n = 0 then Num 1 else if \<bar>n\<bar> \<le> 2 ^ 53 then Num n else Inexact n)"
  by (simp add: or_one_def to_number_def)

text \<open>
  Claim C5, as the script has it. The quantity of an added item is
  \<open>parseInt(quantity) || 1\<close>, a double that is neither \<open>NaN\<close> nor zero: either a
  non-zero integer of magnitude at most \<open>2^53\<close>, or the rounding of an integer
  beyond that. It is 1 when the input does not parse or parses to zero, and
  otherwise what \<open>parseInt\<close> made of the input. In particular the decimal
  string of an integer \<open>i\<close> of magnitude at most \<open>2^53\<close> gives exactly \<open>i\<close>, negative
  or not, or 1 for \<open>i = 0\<close>.
\<close>

theorem added_quantity_is_nonzero:
  assumes "quantityInput st = Some q"
    and "pendingItems (snd (handleAddItem st)) \<noteq> pendingItems st"
  shows "\<exists>item. pendingItems (snd (handleAddItem st)) = pendingItems st @ [item]
           \<and> ((\<exists>i. quantity item = Num i \<and> i \<noteq> 0 \<and> \<bar>i\<bar> \<le> 2 ^ 53)
              \<or> (\<exists>m. quantity item = Inexact m \<and> 2 ^ 53 < \<bar>m\<bar>))
           \<and> quantity item =
               (case parseInt q of
                  NaN \<Rightarrow> Num 1
                | Num i \<Rightarrow> if i = 0 then Num 1 else Num i
                | Inexact m \<Rightarrow> Inexact m)
           \<and> (\<forall>i. \<bar>i\<bar> \<le> 2 ^ 53 \<and> q = js_string_of_int i \<longrightarrow>
                 quantity item = Num (if i = 0 then 1 else i))"
proof -
  from handleAddItem_appends[of st] assms obtain a s d b c urls where
    E: "pendingItems (snd (handleAddItem st)) =
         pendingItems st @ [\<lparr> asset = a, system = s, description = d,
                              quantity = or_one (parseInt q), brand = b, comments = c,
                              photoFiles = urls \<rparr>]"
    by auto
  have range: "(\<exists>i. or_one (parseInt q) = Num i \<and> i \<noteq> 0 \<and> \<bar>i\<bar> \<le> 2 ^ 53)
              \<or> (\<exists>m. or_one (parseInt q) = Inexact m \<and> 2 ^ 53 < \<bar>m\<bar>)"
  proof (cases "parseInt q = NaN")
    case True
    then show ?thesis by (simp add: or_one_def)
  next
    case False
    with parseInt_range[of q] obtain n where "parseInt q = to_number n" by blast
    then show ?thesis by (simp add: or_one_to_number)
  qed
  have dflt: "or_one (parseInt q) =
               (case parseInt q of
                  NaN \<Rightarrow> Num 1
                | Num i \<Rightarrow> if i = 0 then Num 1 else Num i
                | Inexact m \<Rightarrow> Inexact m)"
    by (simp add: or_one_def)
  have trip: "or_one (parseInt (js_string_of_int i)) = Num (if i = 0 then 1 else i)"
    if "\<bar>i\<bar> \<le> 2 ^ 53" for i
    using that by (simp add: parseInt_string_of_int or_one_to_number)
  let ?item = "\<lparr> asset = a, system = s, description = d,
                 quantity = or_one (parseInt q), brand = b, comments = c,
                 photoFiles = urls \<rparr>"
  have "pendingItems (snd (handleAddItem st)) = pendingItems st @ [?item]
           \<and> ((\<exists>i. quantity ?item = Num i \<and> i \<noteq> 0 \<and> \<bar>i\<bar> \<le> 2 ^ 53)
              \<or> (\<exists>m. quantity ?item = Inexact m \<and> 2 ^ 53 < \<bar>m\<bar>))
           \<and> quantity ?item =
               (case parseInt q of
                  NaN \<Rightarrow> Num 1
                | Num i \<Rightarrow> if i = 0 then Num 1 else Num i
                | Inexact m \<Rightarrow> Inexact m)
           \<and> (\<forall>i. \<bar>i\<bar> \<le> 2 ^ 53 \<and> q = js_string_of_int i \<longrightarrow>
                 quantity ?item = Num (if i = 0 then 1 else i))"
    using E range dflt trip by simp
  then show ?thesis by blast
qed

theorem added_quantity_witness:
  "quantityInput (user_selects ''Fan'' ''HVAC'' ''Noise'' ''abc'' ready_page) = Some ''abc''
   \<and> map quantity (pendingItems (snd (handleAddItem
         (user_selects ''Fan'' ''HVAC'' ''Noise'' ''abc'' ready_page)))) = [Num 1]"
proof -
  define st where "st = user_selects ''Fan'' ''HVAC'' ''Noise'' ''abc'' ready_page"
  have h: "quantityInput st = Some ''abc''" and p: "pendingItems st = []"
    and i: "assetSelect st = Some ''Fan''" "systemSelect st = Some ''HVAC''"
    "descriptionSelect st = Some ''Noise''"
    "brandInput st = Some []" "commentsTextarea st = Some []"
    "photoInput st = Some []"
    "''Fan'' \<noteq> []" "''HVAC'' \<noteq> []" "''Noise'' \<noteq> []"
    by (simp_all add: st_def user_selects_def ready_page_eq served_page_def)
  have n: "parseInt ''abc'' = NaN"
    by (simp add: parseInt_def is_js_whitespace_def digit_value_def Let_def)
  have "pendingItems (snd (handleAddItem st)) \<noteq> pendingItems st"
    using handleAddItem_without_photos[OF i(1,2,3) h i(4-)] by simp
  from added_quantity_is_nonzero[OF h this] p n show ?thesis
    unfolding st_def[symmetric] using h by auto
qed

text \<open>
  The claim as stated has every stored quantity positive. The input \<open>-3\<close> parses,
  is truthy, and is stored as it is.
\<close>

theorem added_quantity_can_be_negative:
  "map quantity (pendingItems (snd (handleAddItem
       (user_selects ''Fan'' ''HVAC'' ''Noise'' ''-3'' ready_page)))) = [Num (- 3)]"
proof -
  define st where "st = user_selects ''Fan'' ''HVAC'' ''Noise'' ''-3'' ready_page"
  have h: "quantityInput st = Some ''-3''" and p: "pendingItems st = []"
    and i: "assetSelect st = Some ''Fan''" "systemSelect st = Some ''HVAC''"
    "descriptionSelect st = Some ''Noise''"
    "brandInput st = Some []" "commentsTextarea st = Some []"
    "photoInput st = Some []"
    "''Fan'' \<noteq> []" "''HVAC'' \<noteq> []" "''Noise'' \<noteq> []"
    by (simp_all add: st_def user_selects_def ready_page_eq served_page_def)
  have n: "parseInt ''-3'' = Num (- 3)"
    by (simp add: parseInt_def is_js_whitespace_def digit_value_def radix_value_def
        to_number_def Let_def)
  from handleAddItem_without_photos[OF i(1,2,3) h i(4-)] p n show ?thesis
    unfolding st_def[symmetric] by (simp add: or_one_def)
qed

subsection \<open>Removing an item\<close>

lemmas add_item_eval = handleAddItem_def handleAddItem_begin_def
      handleAddItem_settle_def handleAddItem_then_def user_selects_def
      renderPendingItems_def emptyMessage_found_def reset_inputs_def
      showNotification_def emit_def iconData_def iconMap_def Let_def fileToBase64_def
      parseInt_def is_js_whitespace_def digit_value_def radix_value_def or_one_def
      to_number_def

lemma one_item_page_list:
  "pendingItems one_item_page = [pump]"
  "pendingItemsList one_item_page = Some (rows_from 0 [pump])"
  "emptyListMessage_elsewhere one_item_page = False"
  "assetSelect one_item_page = Some []" "systemSelect one_item_page = Some []"
  "descriptionSelect one_item_page = Some []" "quantityInput one_item_page = Some ''1''"
  "brandInput one_item_page = Some []" "commentsTextarea one_item_page = Some []"
  "photoInput one_item_page = Some []"
  "customAlertModal one_item_page" "bootstrap_loaded one_item_page"
  "customAlertTitle one_item_page \<noteq> None" "customAlertBody one_item_page \<noteq> None"
  "modal_content_className one_item_page \<noteq> None"
  by (simp_all add: one_item_page_def add_item_eval ready_page_eq served_page_def pump_def)

lemma two_items_page_list:
  "pendingItems two_items_page = [pump, fan]"
  "pendingItemsList two_items_page = Some (rows_from 0 [pump])"
  "emptyListMessage_elsewhere two_items_page = False"
  "ConsoleError ''DOM element 'pendingItemsList' or 'emptyListMessage' not found.''
     \<in> set (trace two_items_page)"
  by (simp_all add: two_items_page_def one_item_page_def add_item_eval ready_page_eq
      served_page_def pump_def fan_def)

lemma splice1_exact:
  "0 \<le> i \<Longrightarrow> i < int (length xs) \<Longrightarrow>
     splice1 (Num i) xs = take (nat i) xs @ drop (Suc (nat i)) xs"
  "int (length xs) \<le> i \<Longrightarrow> splice1 (Num i) xs = xs"
proof -
  show "0 \<le> i \<Longrightarrow> i < int (length xs) \<Longrightarrow>
     splice1 (Num i) xs = take (nat i) xs @ drop (Suc (nat i)) xs"
    by (simp add: splice1_def Let_def min_def nat_add_distrib)
  show "int (length xs) \<le> i \<Longrightarrow> splice1 (Num i) xs = xs"
    by (simp add: splice1_def Let_def min_def)
qed

lemma splice1_beyond: "0 \<le> m \<Longrightarrow> splice1 (Inexact m) xs = xs"
  by (simp add: splice1_def Let_def)

text \<open>
  The store after a splice at the decimal string of an integer \<open>i\<close>, for an array of
  fewer than \<open>2^32\<close> elements: with \<open>0 \<le> i < N\<close> exactly the item at position \<open>i\<close> is
  gone and the others keep their order; with \<open>i \<ge> N\<close> nothing is removed.
\<close>

lemma splice1_cases:
  assumes "length xs < 2 ^ 32"
  shows "0 \<le> i \<Longrightarrow> i < int (length xs) \<Longrightarrow>
           splice1 (to_number i) xs = take (nat i) xs @ drop (Suc (nat i)) xs"
    and "int (length xs) \<le> i \<Longrightarrow> splice1 (to_number i) xs = xs"
proof -
  from assms have len: "int (length xs) < 2 ^ 32" by (simp add: of_nat_less_iff[symmetric] del: of_nat_less_iff)
  have small: "(2 :: int) ^ 32 < 2 ^ 53" by simp
  show "splice1 (to_number i) xs = take (nat i) xs @ drop (Suc (nat i)) xs"
    if "0 \<le> i" "i < int (length xs)"
  proof -
    from that len small have "\<bar>i\<bar> \<le> 2 ^ 53" by linarith
    then have "to_number i = Num i" by (simp add: to_number_def)
    with splice1_exact(1)[OF that] show ?thesis by simp
  qed
  show "splice1 (to_number i) xs = xs" if "int (length xs) \<le> i"
  proof (cases "\<bar>i\<bar> \<le> 2 ^ 53")
    case True
    then have "to_number i = Num i" by (simp add: to_number_def)
    with splice1_exact(2)[OF that] show ?thesis by simp
  next
    case False
    with that have "to_number i = Inexact i" "0 \<le> i" by (simp_all add: to_number_def)
    with splice1_beyond[of i xs] show ?thesis by simp
  qed
qed

lemma render_shows_store:
  "pendingItemsList st \<noteq> None \<Longrightarrow> emptyMessage_found st \<Longrightarrow>
   pendingItemsList (snd (renderPendingItems st)) = Some (list_view (pendingItems st))"
  by (auto simp add: renderPendingItems_def list_view_def Let_def)

lemma render_without_placeholder:
  "\<not> emptyMessage_found st \<Longrightarrow>
   renderPendingItems st = (Returned,
     emit (ConsoleError ''DOM element 'pendingItemsList' or 'emptyListMessage' not found.'') st)"
  by (simp add: renderPendingItems_def)

lemma rows_from_nth:
  "k < length xs \<Longrightarrow> length (rows_from n xs) = length xs
   \<and> (\<exists>r. rows_from n xs ! k = ItemRow r \<and> row_index r = js_string_of_nat (n + k))"
proof (induction xs arbitrary: n k)
  case Nil
  then show ?case by simp
next
  case (Cons x xs)
  have len: "length (rows_from m ys) = length ys" for m ys
    by (induction ys arbitrary: m) simp_all
  show ?case
  proof (cases k)
    case 0
    then show ?thesis by (simp add: len)
  next
    case (Suc j)
    with Cons.prems have "j < length xs" by simp
    from Cons.IH[OF this, of "Suc n"] Suc show ?thesis by (simp add: len)
  qed
qed

text \<open>
  The button of the \<open>k\<close>-th row of a rendered list carries the index \<open>k\<close>, whatever
  the store holds by then.
\<close>

lemma click_remove_button_row:
  assumes "pendingItemsList st = Some (rows_from 0 shown)" "k < length shown"
  shows "click_remove_button k st = Some (remove_item_click (js_string_of_nat k) st)"
  using assms rows_from_nth[OF assms(2), of 0]
  by (auto simp add: click_remove_button_def)

text \<open>
  What a click on a remove button does to the store, and what it does to the list
  when the render that follows finds no placeholder: nothing.
\<close>

lemma remove_item_click_store:
  assumes "length (pendingItems st) < 2 ^ 32"
  shows "fst (remove_item_click (js_string_of_int i) st) = Returned"
    and "0 \<le> i \<Longrightarrow> i < int (length (pendingItems st)) \<Longrightarrow>
           pendingItems (snd (remove_item_click (js_string_of_int i) st)) =
             take (nat i) (pendingItems st) @ drop (Suc (nat i)) (pendingItems st)"
    and "int (length (pendingItems st)) \<le> i \<Longrightarrow>
           pendingItems (snd (remove_item_click (js_string_of_int i) st)) = pendingItems st"
  using splice1_cases[OF assms, of i]
  by (simp_all add: remove_item_click_def renderPendingItems_store parseInt_string_of_int)

lemma remove_item_click_stale:
  assumes "\<not> emptyMessage_found st"
  shows "pendingItemsList (snd (remove_item_click a st)) = pendingItemsList st"
proof -
  from assms have "\<not> emptyMessage_found (st\<lparr>pendingItems := splice1 (parseInt a) (pendingItems st)\<rparr>)"
    by (simp add: emptyMessage_found_def)
  from render_without_placeholder[OF this] show ?thesis
    by (simp add: remove_item_click_def emit_def)
qed

lemma decimal_literals: "js_string_of_nat 0 = ''0''" "js_string_of_nat (Suc 0) = ''1''"
  by code_simp+

lemma parseInt_zero: "parseInt ''0'' = Num 0"
  by (simp add: parseInt_def is_js_whitespace_def digit_value_def radix_value_def
      to_number_def Let_def)

lemma not_found_after_rows:
  "\<not> emptyMessage_found one_item_page" "\<not> emptyMessage_found two_items_page"
proof -
  have "EmptyMessage \<notin> set (rows_from n xs)" for n xs
    by (induction xs arbitrary: n) simp_all
  then show "\<not> emptyMessage_found one_item_page" "\<not> emptyMessage_found two_items_page"
    by (simp_all add: emptyMessage_found_def one_item_page_list two_items_page_list)
qed

text \<open>
  Claim C6 at a click on the remove button of the first row, on the page after two
  valid adds and on the page after one. The store loses exactly the item at
  position 0, as the claim has it, and the listener returns. But the render that
  follows does not show the remaining items: with \<open>Fan\<close> left in the store the list
  still shows the row of \<open>Pump\<close>, and with nothing left it shows that row instead of
  the placeholder.
\<close>

theorem removed_row_stays_on_the_list:
  "map_option (\<lambda>(c, st). (c, pendingItems st, pendingItemsList st))
     (click_remove_button 0 two_items_page) = Some (Returned, [fan], Some (rows_from 0 [pump]))
   \<and> map_option (\<lambda>(c, st). (c, pendingItems st, pendingItemsList st))
     (click_remove_button 0 one_item_page) = Some (Returned, [], Some (rows_from 0 [pump]))
   \<and> list_view [fan] \<noteq> rows_from 0 [pump] \<and> list_view [] \<noteq> rows_from 0 [pump]"
proof -
  have c2: "click_remove_button 0 two_items_page = Some (remove_item_click ''0'' two_items_page)"
    using click_remove_button_row[of two_items_page "[pump]" 0]
    by (simp add: two_items_page_list decimal_literals)
  have c1: "click_remove_button 0 one_item_page = Some (remove_item_click ''0'' one_item_page)"
    using click_remove_button_row[of one_item_page "[pump]" 0]
    by (simp add: one_item_page_list decimal_literals)
  have s2: "pendingItems (snd (remove_item_click ''0'' two_items_page)) = [fan]"
    and s1: "pendingItems (snd (remove_item_click ''0'' one_item_page)) = []"
    by (simp_all add: remove_item_click_def renderPendingItems_store parseInt_zero
        two_items_page_list one_item_page_list splice1_def)
  have r: "fst (remove_item_click ''0'' two_items_page) = Returned"
    "fst (remove_item_click ''0'' one_item_page) = Returned"
    by (simp_all add: remove_item_click_def renderPendingItems_store)
  have l2: "pendingItemsList (snd (remove_item_click ''0'' two_items_page)) = Some (rows_from 0 [pump])"
    using remove_item_click_stale[OF not_found_after_rows(2), of "''0''"]
    by (simp add: two_items_page_list)
  have l1: "pendingItemsList (snd (remove_item_click ''0'' one_item_page)) = Some (rows_from 0 [pump])"
    using remove_item_click_stale[OF not_found_after_rows(1), of "''0''"]
    by (simp add: one_item_page_list)
  have d: "list_view [fan] \<noteq> rows_from 0 [pump]" "list_view [] \<noteq> rows_from 0 [pump]"
    by (simp_all add: list_view_def pump_def fan_def)
  from c1 c2 s1 s2 r l1 l2 d show ?thesis
    by (simp add: case_prod_beta)
qed

subsection \<open>Rendering\<close>

text \<open>
  Rendering twice in a row shows what rendering once shows. But a render of a
  non-empty store detaches the placeholder, which the first statement of the next
  render needs: from then on every render only logs an error. This does not depend
  on where the served document keeps the placeholder, since the startup render of
  the empty store moves it into the container.
\<close>

lemma render_twice:
  "pendingItemsList (snd (renderPendingItems (snd (renderPendingItems st)))) =
     pendingItemsList (snd (renderPendingItems st))
   \<and> emptyListMessage_display (snd (renderPendingItems (snd (renderPendingItems st)))) =
     emptyListMessage_display (snd (renderPendingItems st))
   \<and> emptyListMessage_elsewhere (snd (renderPendingItems (snd (renderPendingItems st)))) =
     emptyListMessage_elsewhere (snd (renderPendingItems st))"
  by (simp add: renderPendingItems_def emptyMessage_found_def emit_def Let_def split: option.splits)

lemma render_detaches_placeholder:
  assumes "pendingItemsList st \<noteq> None" "emptyMessage_found st"
    "\<not> emptyListMessage_elsewhere st" "pendingItems st \<noteq> []"
  shows "\<not> emptyMessage_found (snd (renderPendingItems st))"
proof -
  have "EmptyMessage \<notin> set (rows_from n xs)" for n xs
    by (induction xs arbitrary: n) simp_all
  with assms show ?thesis
    by (auto simp add: renderPendingItems_def emptyMessage_found_def Let_def)
qed

lemma startup_render_then_rows_lose_placeholder:
  assumes "pendingItemsList st \<noteq> None" "emptyMessage_found st" "pendingItems st = []"
  shows "pendingItemsList (snd (renderPendingItems st)) = Some [EmptyMessage]"
    and "items \<noteq> [] \<Longrightarrow>
         \<not> emptyMessage_found
             (snd (renderPendingItems ((snd (renderPendingItems st))\<lparr>pendingItems := items\<rparr>)))"
proof -
  let ?st0 = "snd (renderPendingItems st)"
  from assms show l: "pendingItemsList ?st0 = Some [EmptyMessage]"
    by (auto simp add: renderPendingItems_def Let_def)
  from assms have e: "\<not> emptyListMessage_elsewhere ?st0"
    by (auto simp add: renderPendingItems_def Let_def)
  assume "items \<noteq> []"
  with l e render_detaches_placeholder[of "?st0\<lparr>pendingItems := items\<rparr>"]
  show "\<not> emptyMessage_found (snd (renderPendingItems (?st0\<lparr>pendingItems := items\<rparr>)))"
    by (simp add: emptyMessage_found_def)
qed

text \<open>
  Claim C7 at two valid adds on the started page. The store holds both items in
  insertion order, but the list shows one row, not two: the render of the second
  add logged that an element was not found and left the list as it was.
\<close>

theorem second_add_is_not_rendered:
  "pendingItems two_items_page = [pump, fan]
   \<and> pendingItemsList two_items_page = Some (rows_from 0 [pump])
   \<and> pendingItemsList two_items_page \<noteq> Some (list_view (pendingItems two_items_page))
   \<and> ConsoleError ''DOM element 'pendingItemsList' or 'emptyListMessage' not found.''
       \<in> set (trace two_items_page)"
  using two_items_page_list by (simp add: list_view_def)

subsection \<open>Failed submissions\<close>

lemma failure_detail_cases:
  "message b = Some m \<Longrightarrow>
     failure_detail \<lparr> err_response = Some (DataObject b), err_message = t \<rparr> = m"
  "failure_detail \<lparr> err_response = None, err_message = t \<rparr> = t"
  "failure_detail \<lparr> err_response = Some DataNull, err_message = t \<rparr> = t"
  "failure_detail \<lparr> err_response = Some DataFalsy, err_message = t \<rparr> = t"
  by (simp_all add: failure_detail_def js_template_def)

lemma onSubmit_catch_store:
  "pendingItems (snd (onSubmit_catch err st)) = pendingItems st"
  by (simp add: onSubmit_catch_def emit_def Let_def showNotification_store split: option.splits)

text \<open>
  Claim C8 at a server error whose body is an object without a \<open>message\<close>. The
  banner does not fall back to the transport text \<open>Request failed with status code
  500\<close>: the script tests whether the response has a body, not whether the body has
  a message, and prints the missing property.
\<close>

theorem banner_without_server_message:
  "failure_detail error_without_message = ''undefined''
   \<and> map_option textContent (submission_alert (snd (onSubmit_catch error_without_message ready_page)))
       = Some ''Error: undefined. Check console for details.''"
  by (simp add: failure_detail_def error_without_message_def js_template_def onSubmit_catch_def
      emit_def Let_def showNotification_def ready_page_eq served_page_def iconData_def iconMap_def)

subsection \<open>Notifications and missing elements\<close>

lemma iconData_fallback:
  assumes "kind \<notin> set [''success'', ''error'', ''warning'']" "kind \<notin> set object_prototype_names"
  shows "iconData kind = info_icon"
  using assms by (simp add: iconData_def iconMap_def)

text \<open>
  Claim C9, as the script has it. \<open>showNotification\<close> does nothing to the page when
  the modal root is absent, and returns normally whenever the title, the body, the
  \<open>.modal-content\<close> element and the bootstrap library are there. A kind that is none
  of \<open>success\<close>, \<open>error\<close>, \<open>warning\<close> and no property that every object inherits gets
  exactly the styling of \<open>info\<close>. \<open>renderPendingItems\<close> answers a missing container or
  placeholder with a console error and a normal return.
\<close>

theorem showNotification_degrades:
  "(\<not> customAlertModal st \<longrightarrow>
      showNotification kind title msg st = (Returned, emit (NotificationCall kind title msg) st))
 \<and> (customAlertTitle st \<noteq> None \<and> customAlertBody st \<noteq> None
      \<and> modal_content_className st \<noteq> None \<and> bootstrap_loaded st \<longrightarrow>
      fst (showNotification kind title msg st) = Returned)
 \<and> (kind \<notin> set [''success'', ''error'', ''warning''] \<and> kind \<notin> set object_prototype_names \<longrightarrow>
      iconData kind = info_icon
    \<and> fst (showNotification kind title msg st) = fst (showNotification ''info'' title msg st)
    \<and> (snd (showNotification kind title msg st))\<lparr>trace := []\<rparr> =
        (snd (showNotification ''info'' title msg st))\<lparr>trace := []\<rparr>)
 \<and> (pendingItemsList st = None \<or> \<not> emptyMessage_found st \<longrightarrow>
      renderPendingItems st = (Returned,
        emit (ConsoleError ''DOM element 'pendingItemsList' or 'emptyListMessage' not found.'') st))"
proof -
  have absent: "showNotification kind title msg st = (Returned, emit (NotificationCall kind title msg) st)"
    if "\<not> customAlertModal st"
    using that by (simp add: showNotification_def emit_def)
  have complete: "fst (showNotification kind title msg st) = Returned"
    if "customAlertTitle st \<noteq> None" "customAlertBody st \<noteq> None"
      "modal_content_className st \<noteq> None" "bootstrap_loaded st"
    using that by (auto simp add: showNotification_def emit_def Let_def)
  have info: "iconData ''info'' = info_icon"
    by (simp add: iconData_def iconMap_def)
  have fallback: "iconData kind = info_icon
    \<and> fst (showNotification kind title msg st) = fst (showNotification ''info'' title msg st)
    \<and> (snd (showNotification kind title msg st))\<lparr>trace := []\<rparr> =
        (snd (showNotification ''info'' title msg st))\<lparr>trace := []\<rparr>"
    if "kind \<notin> set [''success'', ''error'', ''warning'']" "kind \<notin> set object_prototype_names"
    using iconData_fallback[OF that] info
    by (simp add: showNotification_def emit_def Let_def split: option.splits)
  have render: "renderPendingItems st = (Returned,
        emit (ConsoleError ''DOM element 'pendingItemsList' or 'emptyListMessage' not found.'') st)"
    if "pendingItemsList st = None \<or> \<not> emptyMessage_found st"
    using that by (auto simp add: renderPendingItems_def)
  from absent complete fallback render show ?thesis by blast
qed

theorem showNotification_degrades_witness:
  "showNotification ''fancy'' ''Saved'' ''Done'' (ready_page\<lparr>customAlertModal := False\<rparr>) =
     (Returned, emit (NotificationCall ''fancy'' ''Saved'' ''Done'') (ready_page\<lparr>customAlertModal := False\<rparr>))
   \<and> fst (showNotification ''fancy'' ''Saved'' ''Done'' ready_page) = Returned
   \<and> iconData ''fancy'' = info_icon
   \<and> modal_content_className (snd (showNotification ''fancy'' ''Saved'' ''Done'' ready_page)) =
       Some ''modal-content border-0 border-info''
   \<and> fst (renderPendingItems (ready_page\<lparr>pendingItemsList := None\<rparr>)) = Returned"
proof -
  have h: "\<not> customAlertModal (ready_page\<lparr>customAlertModal := False\<rparr>)"
    "customAlertTitle ready_page \<noteq> None" "customAlertBody ready_page \<noteq> None"
    "modal_content_className ready_page \<noteq> None" "bootstrap_loaded ready_page"
    "''fancy'' \<notin> set [''success'', ''error'', ''warning'']" "''fancy'' \<notin> set object_prototype_names"
    "pendingItemsList (ready_page\<lparr>pendingItemsList := None\<rparr>) = None"
    by (simp_all add: ready_page_eq served_page_def object_prototype_names_def)
  have cn: "modal_content_className (snd (showNotification ''info'' ''Saved'' ''Done'' ready_page)) =
       Some ''modal-content border-0 border-info''"
    by (simp add: showNotification_def emit_def Let_def ready_page_eq served_page_def iconData_def
        iconMap_def info_icon_def js_template_def js_trim_def is_js_whitespace_def
        border_match_def border_words_def)
  from showNotification_degrades[of "ready_page\<lparr>customAlertModal := False\<rparr>" "''fancy''" "''Saved''" "''Done''"]
    showNotification_degrades[of ready_page "''fancy''" "''Saved''" "''Done''"]
    showNotification_degrades[of "ready_page\<lparr>pendingItemsList := None\<rparr>" "''fancy''" "''Saved''" "''Done''"]
    h
  have a: "showNotification ''fancy'' ''Saved'' ''Done'' (ready_page\<lparr>customAlertModal := False\<rparr>) =
     (Returned, emit (NotificationCall ''fancy'' ''Saved'' ''Done'') (ready_page\<lparr>customAlertModal := False\<rparr>))"
    and b: "fst (showNotification ''fancy'' ''Saved'' ''Done'' ready_page) = Returned"
    and c: "iconData ''fancy'' = info_icon"
    and d: "(snd (showNotification ''fancy'' ''Saved'' ''Done'' ready_page))\<lparr>trace := []\<rparr> =
        (snd (showNotification ''info'' ''Saved'' ''Done'' ready_page))\<lparr>trace := []\<rparr>"
    and e: "fst (renderPendingItems (ready_page\<lparr>pendingItemsList := None\<rparr>)) = Returned"
    by simp_all
  from d have "modal_content_className ((snd (showNotification ''fancy'' ''Saved'' ''Done'' ready_page))\<lparr>trace := []\<rparr>) =
        modal_content_className ((snd (showNotification ''info'' ''Saved'' ''Done'' ready_page))\<lparr>trace := []\<rparr>)"
    by simp
  with cn have "modal_content_className (snd (showNotification ''fancy'' ''Saved'' ''Done'' ready_page)) =
       Some ''modal-content border-0 border-info''" by simp
  with a b c e show ?thesis by simp
qed

text \<open>
  The claim as stated has no crash for any input and any missing element. With
  the modal root present and its title missing, \<open>showNotification\<close> throws; the kind
  \<open>constructor\<close> finds an inherited property and gets no styling at all; and
  \<open>onSubmit\<close> and \<open>handleAddItem\<close> throw on a missing element of theirs.
\<close>

theorem missing_scaffold_throws:
  "fst (showNotification ''info'' ''Saved'' ''Done'' (ready_page\<lparr>customAlertTitle := None\<rparr>))
     = Threw (null_error ''customAlertTitle'')
   \<and> iconData ''constructor'' = (None, None)
   \<and> fst (onSubmit (ready_page\<lparr>downloadArea := None\<rparr>)) = Threw (null_error ''downloadArea'')
   \<and> fst (handleAddItem (ready_page\<lparr>assetSelect := None\<rparr>)) = Threw (null_error ''assetSelect'')"
  by (simp add: showNotification_def emit_def Let_def ready_page_eq served_page_def iconData_def
      iconMap_def object_prototype_names_def onSubmit_def handleAddItem_def handleAddItem_begin_def)

end
